theory Spec2Isabelle
  imports Complex_Main
begin

section \<open>Python values and exceptions\<close>

text \<open>
  The program is dynamically typed: a canvas record is a \<^verbatim>\<open>dict\<close> read from JSON, the
  \<^verbatim>\<open>lines\<close> and \<^verbatim>\<open>zones\<close> of a \<^verbatim>\<open>Draw\<close> are plain lists of whatever was put in
  them, and a configuration document is a JSON tree. The values that occur are numbers,
  strings, booleans, \<^verbatim>\<open>None\<close>, lists, tuples and dictionaries with string keys.
  A Python \<^verbatim>\<open>float\<close> is held as the rational it denotes: rounding, infinities and NaN
  are outside the model. Equality of \<open>pyval\<close> is finer than Python's \<^verbatim>\<open>==\<close>
  (\<^verbatim>\<open>1 == 1.0 == True\<close> in Python), and, as in Python, a tuple never equals a list.
  A dictionary is an association list whose keys are distinct.
\<close>

datatype pyval =
    PNone
  | PBool bool
  | PInt int
  | PFloat rat
  | PStr string
  | PList "pyval list"
  | PTuple "pyval list"
  | PDict "(string \<times> pyval) list"

type_synonym pydict = "(string \<times> pyval) list"

datatype pyerror =
    KeyError
  | IndexError
  | TypeError
  | ValueError
  | ZeroDivisionError
  | WrongTypeError
  | FileNotFoundError

text \<open>Sequencing of computations that may raise: the first exception wins.\<close>

definition andthen :: "'e + 'a \<Rightarrow> ('a \<Rightarrow> 'e + 'b) \<Rightarrow> 'e + 'b" where
  "andthen m f = (case m of Inl e \<Rightarrow> Inl e | Inr v \<Rightarrow> f v)"

text \<open>A list comprehension whose element expression may raise, evaluated left to right.\<close>

fun traverse :: "('a \<Rightarrow> 'e + 'b) \<Rightarrow> 'a list \<Rightarrow> 'e + 'b list" where
  "traverse f [] = Inr []"
| "traverse f (x # xs) = andthen (f x) (\<lambda>y. andthen (traverse f xs) (\<lambda>ys. Inr (y # ys)))"

text \<open>\<^verbatim>\<open>i[k]\<close> on a dictionary: a missing key raises \<^verbatim>\<open>KeyError\<close>.\<close>

definition getitem :: "pydict \<Rightarrow> string \<Rightarrow> pyerror + pyval" where
  "getitem i k = (case map_of i k of None \<Rightarrow> Inl KeyError | Some v \<Rightarrow> Inr v)"

text \<open>A \<^verbatim>\<open>bool\<close> is an \<^verbatim>\<open>int\<close> in arithmetic.\<close>

fun unbool :: "pyval \<Rightarrow> pyval" where
  "unbool (PBool b) = PInt (if b then 1 else 0)"
| "unbool v = v"

fun add_values :: "pyval \<Rightarrow> pyval \<Rightarrow> pyerror + pyval" where
  "add_values (PInt a) (PInt b) = Inr (PInt (a + b))"
| "add_values (PInt a) (PFloat b) = Inr (PFloat (of_int a + b))"
| "add_values (PFloat a) (PInt b) = Inr (PFloat (a + of_int b))"
| "add_values (PFloat a) (PFloat b) = Inr (PFloat (a + b))"
| "add_values (PStr a) (PStr b) = Inr (PStr (a @ b))"
| "add_values (PList a) (PList b) = Inr (PList (a @ b))"
| "add_values (PTuple a) (PTuple b) = Inr (PTuple (a @ b))"
| "add_values _ _ = Inl TypeError"

text \<open>\<^verbatim>\<open>a + b\<close>: numbers add, sequences of one kind concatenate, anything else raises.\<close>

definition py_add :: "pyval \<Rightarrow> pyval \<Rightarrow> pyerror + pyval" where
  "py_add a b = add_values (unbool a) (unbool b)"

text \<open>
  \<^verbatim>\<open>v[n]\<close> for a literal index \<open>n \<ge> 0\<close>: out of range is \<^verbatim>\<open>IndexError\<close>; a dictionary
  with string keys has no integer key; a number, a boolean and \<^verbatim>\<open>None\<close> are not
  subscriptable.
\<close>

fun py_index :: "pyval \<Rightarrow> nat \<Rightarrow> pyerror + pyval" where
  "py_index (PList xs) n = (if n < length xs then Inr (xs ! n) else Inl IndexError)"
| "py_index (PTuple xs) n = (if n < length xs then Inr (xs ! n) else Inl IndexError)"
| "py_index (PStr s) n = (if n < length s then Inr (PStr [s ! n]) else Inl IndexError)"
| "py_index (PDict kvs) n = Inl KeyError"
| "py_index _ n = Inl TypeError"

text \<open>
  \<^verbatim>\<open>j[:-1]\<close>: all but the last element of a sequence (the empty sequence stays empty).
  Slicing a dictionary raises (\<^verbatim>\<open>TypeError\<close> up to Python 3.11).
\<close>

fun py_drop_last :: "pyval \<Rightarrow> pyerror + pyval" where
  "py_drop_last (PList xs) = Inr (PList (butlast xs))"
| "py_drop_last (PTuple xs) = Inr (PTuple (butlast xs))"
| "py_drop_last (PStr s) = Inr (PStr (butlast s))"
| "py_drop_last _ = Inl TypeError"

text \<open>\<^verbatim>\<open>for x in k\<close>: a string yields its characters, a dictionary its keys.\<close>

fun py_iter :: "pyval \<Rightarrow> pyerror + pyval list" where
  "py_iter (PList xs) = Inr xs"
| "py_iter (PTuple xs) = Inr xs"
| "py_iter (PStr s) = Inr (map (\<lambda>c. PStr [c]) s)"
| "py_iter (PDict kvs) = Inr (map (\<lambda>kv. PStr (fst kv)) kvs)"
| "py_iter _ = Inl TypeError"

section \<open>Draw.from_canvas\<close>

text \<open>
  The dataclass \<^verbatim>\<open>Draw\<close> and its class method \<^verbatim>\<open>from_canvas\<close> (\<^verbatim>\<open>core.py\<close>, lines 121
  to 157). The argument is the list of objects of the canvas, each a dictionary.
\<close>

record Draw =
  lines :: "pyval list"
  zones :: "pyval list"

text \<open>\<^verbatim>\<open>i['type'] == kind\<close>, after the lookup has succeeded.\<close>

definition has_kind :: "string \<Rightarrow> pydict \<Rightarrow> bool" where
  "has_kind kind i = (map_of i ''type'' = Some (PStr kind))"

text \<open>
  The element expression of the \<^verbatim>\<open>lines\<close> comprehension:
  \<^verbatim>\<open>((i['left'] + i['x1'], i['top'] + i['y1']), (i['left'] + i['x2'], i['top'] + i['y2']))\<close>.
\<close>

definition line_of :: "pydict \<Rightarrow> pyerror + pyval" where
  "line_of i =
     andthen (getitem i ''left'') (\<lambda>l.
     andthen (getitem i ''x1'') (\<lambda>x1.
     andthen (py_add l x1) (\<lambda>ax.
     andthen (getitem i ''top'') (\<lambda>t.
     andthen (getitem i ''y1'') (\<lambda>y1.
     andthen (py_add t y1) (\<lambda>ay.
     andthen (getitem i ''x2'') (\<lambda>x2.
     andthen (py_add l x2) (\<lambda>ex.
     andthen (getitem i ''y2'') (\<lambda>y2.
     andthen (py_add t y2) (\<lambda>ey.
       Inr (PTuple [PTuple [ax, ay], PTuple [ex, ey]])))))))))))"

text \<open>
  A comprehension \<^verbatim>\<open>[e(i) for i in d if i['type'] == kind]\<close>: the condition looks the
  key up in every record, and the element expression runs for the records that pass.
\<close>

fun select_kind :: "string \<Rightarrow> (pydict \<Rightarrow> pyerror + 'b) \<Rightarrow> pydict list \<Rightarrow> pyerror + 'b list" where
  "select_kind kind e [] = Inr []"
| "select_kind kind e (i # d) =
     andthen (getitem i ''type'') (\<lambda>t.
       if t = PStr kind
       then andthen (e i) (\<lambda>y. andthen (select_kind kind e d) (\<lambda>ys. Inr (y # ys)))
       else select_kind kind e d)"

text \<open>\<^verbatim>\<open>[x[1], x[2]]\<close> for one path command \<open>x\<close>.\<close>

definition vertex_of :: "pyval \<Rightarrow> pyerror + pyval" where
  "vertex_of x =
     andthen (py_index x 1) (\<lambda>a. andthen (py_index x 2) (\<lambda>b. Inr (PList [a, b])))"

text \<open>\<^verbatim>\<open>[[x[1], x[2]] for x in k]\<close> for one sliced path \<open>k\<close>.\<close>

definition polygon_of :: "pyval \<Rightarrow> pyerror + pyval" where
  "polygon_of k = andthen (py_iter k) (\<lambda>xs. andthen (traverse vertex_of xs) (\<lambda>vs. Inr (PList vs)))"

text \<open>
  The first operand of \<^verbatim>\<open>zones\<close>: three nested comprehensions, the innermost evaluated
  first over the whole input (all \<^verbatim>\<open>i['path']\<close>, then all \<^verbatim>\<open>j[:-1]\<close>, then the vertices).
\<close>

definition path_zones :: "pydict list \<Rightarrow> pyerror + pyval list" where
  "path_zones d =
     andthen (select_kind ''path'' (\<lambda>i. getitem i ''path'') d) (\<lambda>js.
     andthen (traverse py_drop_last js) (\<lambda>ks.
       traverse polygon_of ks))"

text \<open>The element expression of the second operand: the four corners of a rectangle.\<close>

definition rect_of :: "pydict \<Rightarrow> pyerror + pyval" where
  "rect_of i =
     andthen (getitem i ''left'') (\<lambda>l.
     andthen (getitem i ''top'') (\<lambda>t.
     andthen (getitem i ''width'') (\<lambda>w.
     andthen (py_add l w) (\<lambda>r.
     andthen (getitem i ''height'') (\<lambda>h.
     andthen (py_add t h) (\<lambda>b.
       Inr (PList [PList [l, t], PList [r, t], PList [r, b], PList [l, b]])))))))"

definition from_canvas :: "pydict list \<Rightarrow> pyerror + Draw" where
  "from_canvas d =
     andthen (select_kind ''line'' line_of d) (\<lambda>ls.
     andthen (path_zones d) (\<lambda>ps.
     andthen (select_kind ''rect'' rect_of d) (\<lambda>rs.
       Inr \<lparr>lines = ls, zones = ps @ rs\<rparr>)))"

text \<open>
  The zone of one record taken on its own, for a freehand path and for a rectangle;
  \<open>None\<close> for every other record.
\<close>

definition path_zone_of :: "pydict \<Rightarrow> pyerror + pyval" where
  "path_zone_of i = andthen (getitem i ''path'') (\<lambda>j. andthen (py_drop_last j) polygon_of)"

definition zone_of :: "pydict \<Rightarrow> (pyerror + pyval) option" where
  "zone_of i =
     (if has_kind ''path'' i then Some (path_zone_of i)
      else if has_kind ''rect'' i then Some (rect_of i)
      else None)"

text \<open>
  The order of \<^verbatim>\<open>zones\<close> as the specification words it: one polygon for each
  freehand-path or rectangle record, in the order of the records in the input list.
\<close>

definition zones_in_record_order :: "pydict list \<Rightarrow> pyerror + pyval list" where
  "zones_in_record_order d = traverse id (List.map_filter zone_of d)"

section \<open>ColorClassifier: rgb2ycc and closest\<close>

text \<open>
  \<^verbatim>\<open>rgb2ycc\<close> and \<^verbatim>\<open>closest\<close> (\<^verbatim>\<open>core.py\<close>, lines 60 to 70). \<^verbatim>\<open>rgb2ycc\<close> works on an
  array with one RGB triple per row; the model maps the computation of one row over
  the rows. The decimal literals are the rationals they spell.
\<close>

definition rgb2ycc_row :: "int \<times> int \<times> int \<Rightarrow> rat \<times> rat \<times> rat" where
  "rgb2ycc_row rgb =
     (case rgb of (r0, g0, b0) \<Rightarrow>
        let r = of_int r0 / 255; g = of_int g0 / 255; b = of_int b0 / 255;
            y = 299 / 1000 * r + 587 / 1000 * g + 114 / 1000 * b;
            cb = 128 - 168736 / 1000000 * r - 331364 / 1000000 * g + 1 / 2 * b;
            cr = 128 + 1 / 2 * r - 418688 / 1000000 * g - 81312 / 1000000 * b
        in (y, cb, cr))"

definition rgb2ycc :: "(int \<times> int \<times> int) list \<Rightarrow> (rat \<times> rat \<times> rat) list" where
  "rgb2ycc rgb = map rgb2ycc_row rgb"

text \<open>
  The transform as the specification gives it:
  \<open>Y = 0.299R + 0.587G + 0.114B\<close>, \<open>Cb = 128 - 0.168736R - 0.331264G + 0.5B\<close>,
  \<open>Cr = 128 + 0.5R - 0.418688G - 0.081312B\<close>, on channels normalised to \<open>[0,1]\<close>.
\<close>

definition ycc_spec :: "int \<times> int \<times> int \<Rightarrow> rat \<times> rat \<times> rat" where
  "ycc_spec rgb =
     (case rgb of (r0, g0, b0) \<Rightarrow>
        let r = of_int r0 / 255; g = of_int g0 / 255; b = of_int b0 / 255
        in (299 / 1000 * r + 587 / 1000 * g + 114 / 1000 * b,
            128 - 168736 / 1000000 * r - 331264 / 1000000 * g + 1 / 2 * b,
            128 + 1 / 2 * r - 418688 / 1000000 * g - 81312 / 1000000 * b))"

text \<open>\<^verbatim>\<open>np.sum((a - b) ** 2)\<close> for two rows.\<close>

definition sqdist :: "rat \<times> rat \<times> rat \<Rightarrow> rat \<times> rat \<times> rat \<Rightarrow> rat" where
  "sqdist p q =
     (case p of (a, b, c) \<Rightarrow> case q of (x, y, z) \<Rightarrow> (a - x)\<^sup>2 + (b - y)\<^sup>2 + (c - z)\<^sup>2)"

text \<open>
  \<^verbatim>\<open>np.argmin\<close>: the index of the first smallest entry; an empty array raises
  \<^verbatim>\<open>ValueError\<close>. The loop keeps the best index and value seen so far.
\<close>

fun argmin_loop :: "nat \<Rightarrow> rat \<Rightarrow> nat \<Rightarrow> rat list \<Rightarrow> nat" where
  "argmin_loop best bv k [] = best"
| "argmin_loop best bv k (x # xs) =
     (if x < bv then argmin_loop k x (Suc k) xs else argmin_loop best bv (Suc k) xs)"

definition argmin :: "rat list \<Rightarrow> pyerror + nat" where
  "argmin xs = (case xs of [] \<Rightarrow> Inl ValueError | x # r \<Rightarrow> Inr (argmin_loop 0 x 1 r))"

definition closest :: "int \<times> int \<times> int \<Rightarrow> (rat \<times> rat \<times> rat) list \<Rightarrow> pyerror + nat" where
  "closest rgb ycc_colors =
     argmin (map (\<lambda>c. sqdist c (hd (rgb2ycc [rgb]))) ycc_colors)"

section \<open>Configuration records\<close>

text \<open>
  The dataclasses of the program, with the types their annotations declare
  (a \<^verbatim>\<open>float\<close> field holds a rational, see above).
\<close>

record Display =
  fps :: bool
  predict_color :: bool
  box :: bool
  skip_label :: bool
  mask :: bool
  mask_opacity :: rat
  area :: bool

record Tweak =
  thickness :: int
  text_scale :: rat
  text_offset :: int
  text_padding :: int
  text_color :: string

record ModelInfo =
  path :: string
  classes :: "int list"
  ver :: string
  task :: string
  conf :: rat
  tracker :: "string option"

section \<open>The library objects the Annotator holds\<close>

text \<open>
  \<^verbatim>\<open>Point\<close> and \<^verbatim>\<open>Color\<close> are plain value classes of the drawing library. A
  \<^verbatim>\<open>Point\<close> is built from whatever coordinates it is given.
\<close>

datatype Point = Point pyval pyval

datatype Color = Color int int int

text \<open>
  One row of a \<^verbatim>\<open>Detections\<close> object, as the program reads it: the box, the optional
  mask (an image-like array, never inspected here), the confidence, the class id, the
  optional tracker id, and the value of the \<^verbatim>\<open>area\<close> property for the row.
\<close>

record 'fr detection =
  xyxy :: "rat \<times> rat \<times> rat \<times> rat"
  det_mask :: "'fr option"
  confidence :: rat
  class_id :: int
  tracker_id :: "int option"
  det_area :: rat

text \<open>
  \<^verbatim>\<open>Model\<close>: the attributes \<^verbatim>\<open>Model.__init__\<close> sets. \<^verbatim>\<open>m_model\<close> is the handle of
  the loaded network (\<^verbatim>\<open>self.model\<close>); \<^verbatim>\<open>names\<close> is the class-name table, a
  dictionary from class id to name, empty when the network provides none.
\<close>

record 'h Model =
  m_classes :: "int list"
  m_conf :: rat
  m_tracker :: "string option"
  legacy :: bool
  m_model :: 'h
  names :: "(int \<times> string) list"
  info :: ModelInfo

text \<open>
  The three annotator objects carry the arguments they were constructed with. A
  \<^verbatim>\<open>PolygonZoneAnnotator\<close> also refers to its zone: the program always makes annotator
  \<open>i\<close> refer to the very object \<^verbatim>\<open>self.zs[i]\<close>, so the reference is the index into
  \<^verbatim>\<open>zs\<close>, and what a trigger does to the zone is seen by the annotator.
\<close>

record LineZoneAnnotator =
  l_thickness :: int
  l_text_color :: Color
  l_text_scale :: rat
  l_text_offset :: int
  l_text_padding :: int

record BoxAnnotator =
  b_thickness :: int
  b_text_color :: Color
  b_text_scale :: rat
  b_text_padding :: int

record PolygonZoneAnnotator =
  z_thickness :: int
  z_text_color :: Color
  z_text_scale :: rat
  z_text_padding :: int
  z_zone :: nat
  z_color :: Color
  z_center :: Point

text \<open>A numeric array of rank two, as \<^verbatim>\<open>np.array\<close> builds from a list of vertices.\<close>

type_synonym ndarray = "rat list list"

section \<open>The external collaborators\<close>

text \<open>
  Everything the program calls but does not define is a parameter: the frame type
  \<open>'fr\<close>, the network handle \<open>'h\<close>, the line and polygon trigger objects \<open>'lz\<close> and
  \<open>'pz\<close> of the zone library, the painters, and the palette tables of the module
  \<^verbatim>\<open>color\<close>. A painter takes the frame buffer and returns it as it is after the call
  (the program relies on the painters writing into the buffer they are given: it
  discards what \<^verbatim>\<open>draw_text\<close> and \<^verbatim>\<open>LineZoneAnnotator.annotate\<close> return).
  \<open>run_det\<close> stands for \<^verbatim>\<open>Model.det\<close>, which is library calls throughout: the
  inference on the frame, the conversion of its result to detections, and the preview
  image; it reads the frame and does not write to it, and what it raises is passed on.
  \<open>line_counts\<close> reads the attributes \<^verbatim>\<open>in_count\<close> and \<^verbatim>\<open>out_count\<close> of a line trigger,
  \<open>pz_polygon\<close> the attribute \<^verbatim>\<open>polygon\<close> of a polygon trigger. The three formatters
  stand for the format specifications \<^verbatim>\<open>0.2f\<close>, \<^verbatim>\<open>.1f\<close> and the default one of an
  integer.
\<close>

record ('fr, 'h, 'lz, 'pz) ext =
  colors :: "string list"
  colors_rgb :: "(int \<times> int \<times> int) list"
  load_rtdetr :: "string \<Rightarrow> pyerror + 'h"
  load_yolo :: "string \<Rightarrow> pyerror + 'h"
  load_yolov5 :: "string \<Rightarrow> pyerror + 'h"
  model_names :: "'h \<Rightarrow> (int \<times> string) list"
  set_legacy :: "int list \<Rightarrow> rat \<Rightarrow> 'h \<Rightarrow> 'h"
  run_det :: "'h Model \<Rightarrow> 'fr \<Rightarrow> pyerror + 'fr detection list \<times> 'fr"
  shape :: "'fr \<Rightarrow> nat \<times> nat"
  crop :: "'fr \<Rightarrow> int \<times> int \<times> int \<times> int \<Rightarrow> 'fr"
  kmeans_center :: "'fr \<Rightarrow> pyerror + rat \<times> rat \<times> rat"
  draw_text :: "'fr \<Rightarrow> string \<Rightarrow> Point \<Rightarrow> Color \<Rightarrow> rat \<Rightarrow> int \<Rightarrow> Color option \<Rightarrow> 'fr"
  box_annotate :: "BoxAnnotator \<Rightarrow> 'fr \<Rightarrow> 'fr detection list \<Rightarrow> string list \<Rightarrow> bool \<Rightarrow> 'fr"
  mask_annotate :: "'fr \<Rightarrow> 'fr detection list \<Rightarrow> rat \<Rightarrow> 'fr"
  new_line_zone :: "Point \<Rightarrow> Point \<Rightarrow> 'lz"
  line_trigger :: "'fr detection list \<Rightarrow> 'lz \<Rightarrow> 'lz"
  line_counts :: "'lz \<Rightarrow> int \<times> int"
  line_annotate :: "LineZoneAnnotator \<Rightarrow> 'fr \<Rightarrow> 'lz \<Rightarrow> 'fr"
  new_polygon_zone :: "ndarray \<Rightarrow> int \<times> int \<Rightarrow> 'pz"
  pz_polygon :: "'pz \<Rightarrow> ndarray"
  zone_trigger :: "'fr detection list \<Rightarrow> 'pz \<Rightarrow> 'pz"
  zone_annotate :: "PolygonZoneAnnotator \<Rightarrow> 'pz \<Rightarrow> 'fr \<Rightarrow> 'fr"
  get_polygon_center :: "ndarray \<Rightarrow> Point"
  by_idx :: "nat \<Rightarrow> Color"
  from_hex :: "string \<Rightarrow> pyerror + Color"
  fmt_conf :: "rat \<Rightarrow> string"
  fmt_fps :: "rat \<Rightarrow> string"
  fmt_int :: "int \<Rightarrow> string"

section \<open>The Annotator\<close>

record ('h, 'lz, 'pz) Annotator =
  model :: "'h Model"
  reso :: "int \<times> int"
  draw :: Draw
  display :: Display
  tweak :: Tweak
  ls :: "'lz list"
  zs :: "'pz list"
  a_text_color :: Color
  a_line :: LineZoneAnnotator
  a_box :: BoxAnnotator
  a_zones :: "PolygonZoneAnnotator list"

text \<open>
  The fields \<open>a_text_color\<close>, \<open>a_line\<close>, \<open>a_box\<close> and \<open>a_zones\<close> are the attributes
  \<^verbatim>\<open>text_color\<close>, \<^verbatim>\<open>line\<close>, \<^verbatim>\<open>box\<close> and \<^verbatim>\<open>zones\<close> of the class (renamed apart from
  the fields of \<open>Tweak\<close>, \<open>Display\<close> and \<open>Draw\<close>); \<^verbatim>\<open>MaskAnnotator()\<close> has no state.
\<close>

subsection \<open>Model.__init__\<close>

text \<open>
  The constructor of \<^verbatim>\<open>Model\<close> (\<^verbatim>\<open>core.py\<close>, lines 170 to 195): the loader is chosen by
  the version tag, and a legacy network is given the classes and the threshold.
\<close>

definition Model_init :: "('fr, 'h, 'lz, 'pz) ext \<Rightarrow> ModelInfo \<Rightarrow> pyerror + 'h Model" where
  "Model_init ext i =
     (let lg = (ver i = ''v5'') in
      andthen
        (if ver i = ''rtdetr''
         then andthen (load_rtdetr ext (path i)) (\<lambda>h. Inr (h, []))
         else andthen (if \<not> lg then load_yolo ext (path i) else load_yolov5 ext (path i))
                (\<lambda>h. Inr (h, model_names ext h)))
        (\<lambda>(h, ns).
           Inr \<lparr>m_classes = classes i, m_conf = conf i, m_tracker = tracker i, legacy = lg,
                m_model = (if lg then set_legacy ext (classes i) (conf i) h else h),
                names = ns, info = i\<rparr>))"

subsection \<open>Numbers and arrays\<close>

text \<open>\<^verbatim>\<open>astype(int)\<close> and \<^verbatim>\<open>int(x)\<close>: truncation toward zero.\<close>

definition trunc :: "rat \<Rightarrow> int" where
  "trunc q = (if 0 \<le> q then \<lfloor>q\<rfloor> else \<lceil>q\<rceil>)"

fun number_of :: "pyval \<Rightarrow> rat option" where
  "number_of (PInt a) = Some (of_int a)"
| "number_of (PFloat a) = Some a"
| "number_of (PBool b) = Some (if b then 1 else 0)"
| "number_of _ = None"

text \<open>\<^verbatim>\<open>v * scale\<close> for a float \<^verbatim>\<open>scale\<close>: only a number can be multiplied by a float.\<close>

definition py_mul :: "pyval \<Rightarrow> rat \<Rightarrow> pyerror + pyval" where
  "py_mul v s = (case number_of v of None \<Rightarrow> Inl TypeError | Some a \<Rightarrow> Inr (PFloat (a * s)))"

fun seq_items :: "pyval \<Rightarrow> pyerror + pyval list" where
  "seq_items (PList xs) = Inr xs"
| "seq_items (PTuple xs) = Inr xs"
| "seq_items _ = Inl ValueError"

definition row_of :: "pyval \<Rightarrow> pyerror + rat list" where
  "row_of v =
     andthen (seq_items v)
       (traverse (\<lambda>x. case number_of x of None \<Rightarrow> Inl ValueError | Some a \<Rightarrow> Inr a))"

text \<open>
  \<^verbatim>\<open>np.array(p)\<close> for a polygon \<open>p\<close>: a sequence of equally long rows of numbers gives
  the array of rank two with these rows. For every other value the model raises
  \<^verbatim>\<open>ValueError\<close>: numpy either raises too (rows of different lengths) or builds an
  array of another rank or element type, from which the zone library builds no polygon.
\<close>

definition np_array :: "pyval \<Rightarrow> pyerror + ndarray" where
  "np_array p =
     andthen (seq_items p) (\<lambda>rows.
     andthen (traverse row_of rows) (\<lambda>m.
       if list_all (\<lambda>r. length r = length (hd m)) m then Inr m else Inl ValueError))"

subsection \<open>Annotator.__init__\<close>

text \<open>The constructor (\<^verbatim>\<open>core.py\<close>, lines 230 to 276).\<close>

text \<open>\<^verbatim>\<open>i[a][b]\<close>.\<close>

definition coord :: "pyval \<Rightarrow> nat \<Rightarrow> nat \<Rightarrow> pyerror + pyval" where
  "coord i a b = andthen (py_index i a) (\<lambda>v. py_index v b)"


text \<open>\<^verbatim>\<open>LineZone(start=Point(i[0][0], i[0][1]), end=Point(i[1][0], i[1][1]))\<close>.\<close>

definition line_zone_of :: "('fr, 'h, 'lz, 'pz) ext \<Rightarrow> pyval \<Rightarrow> pyerror + 'lz" where
  "line_zone_of ext i =
     andthen (coord i 0 0) (\<lambda>x0.
     andthen (coord i 0 1) (\<lambda>y0.
     andthen (coord i 1 0) (\<lambda>x1.
     andthen (coord i 1 1) (\<lambda>y1.
       Inr (new_line_zone ext (Point x0 y0) (Point x1 y1))))))"

text \<open>\<^verbatim>\<open>PolygonZone(polygon=np.array(p), frame_resolution_wh=reso)\<close>.\<close>

definition polygon_zone_of :: "('fr, 'h, 'lz, 'pz) ext \<Rightarrow> int \<times> int \<Rightarrow> pyval \<Rightarrow> pyerror + 'pz" where
  "polygon_zone_of ext r p = andthen (np_array p) (\<lambda>a. Inr (new_polygon_zone ext a r))"

text \<open>
  The comprehension over \<^verbatim>\<open>enumerate(self.zs)\<close> that builds the zone annotators; the
  library's constructor computes the label anchor of the zone it is given.
\<close>

definition zone_annotator_of ::
  "('fr, 'h, 'lz, 'pz) ext \<Rightarrow> Tweak \<Rightarrow> Color \<Rightarrow> nat \<Rightarrow> 'pz \<Rightarrow> PolygonZoneAnnotator" where
  "zone_annotator_of ext tw tc i z =
     \<lparr>z_thickness = thickness tw, z_text_color = tc, z_text_scale = text_scale tw,
      z_text_padding = text_padding tw, z_zone = i, z_color = by_idx ext i,
      z_center = get_polygon_center ext (pz_polygon ext z)\<rparr>"

definition Annotator_init ::
  "('fr, 'h, 'lz, 'pz) ext \<Rightarrow> 'h Model \<Rightarrow> int \<times> int \<Rightarrow> Draw \<Rightarrow> Display \<Rightarrow> Tweak
     \<Rightarrow> pyerror + ('h, 'lz, 'pz) Annotator" where
  "Annotator_init ext m r dr dp tw =
     andthen (traverse (line_zone_of ext) (lines dr)) (\<lambda>l.
     andthen (traverse (polygon_zone_of ext r) (zones dr)) (\<lambda>z.
     andthen (from_hex ext (text_color tw)) (\<lambda>tc.
       Inr \<lparr>model = m, reso = r, draw = dr, display = dp, tweak = tw, ls = l, zs = z,
            a_text_color = tc,
            a_line = \<lparr>l_thickness = thickness tw, l_text_color = tc,
                      l_text_scale = text_scale tw, l_text_offset = text_offset tw,
                      l_text_padding = text_padding tw\<rparr>,
            a_box = \<lparr>b_thickness = thickness tw, b_text_color = tc,
                     b_text_scale = text_scale tw, b_text_padding = text_padding tw\<rparr>,
            a_zones = map (\<lambda>(i, z). zone_annotator_of ext tw tc i z) (enumerate 0 z)\<rparr>)))"

subsection \<open>Annotator.update\<close>

text \<open>
  \<^verbatim>\<open>update\<close> (\<^verbatim>\<open>core.py\<close>, lines 386 to 408). It reads \<^verbatim>\<open>self.draw\<close> and \<^verbatim>\<open>self.reso\<close> and
  assigns \<^verbatim>\<open>self.ls\<close>, \<^verbatim>\<open>self.zs\<close> and two attributes of each zone annotator.
\<close>

text \<open>
  \<^verbatim>\<open>LineZone(start=Point(i[0][0] * scale, i[0][1] * scale),
            end=Point(i[1][0] * scale, i[1][1] * scale))\<close>.
\<close>

definition scaled_coord :: "pyval \<Rightarrow> nat \<Rightarrow> nat \<Rightarrow> rat \<Rightarrow> pyerror + pyval" where
  "scaled_coord i a b s = andthen (coord i a b) (\<lambda>v. py_mul v s)"

definition scaled_line_zone :: "('fr, 'h, 'lz, 'pz) ext \<Rightarrow> rat \<Rightarrow> pyval \<Rightarrow> pyerror + 'lz" where
  "scaled_line_zone ext s i =
     andthen (scaled_coord i 0 0 s) (\<lambda>x0.
     andthen (scaled_coord i 0 1 s) (\<lambda>y0.
     andthen (scaled_coord i 1 0 s) (\<lambda>x1.
     andthen (scaled_coord i 1 1 s) (\<lambda>y1.
       Inr (new_line_zone ext (Point x0 y0) (Point x1 y1))))))"

text \<open>\<^verbatim>\<open>(z.polygon * scale).astype(int)\<close>.\<close>

definition scale_polygon :: "rat \<Rightarrow> ndarray \<Rightarrow> ndarray" where
  "scale_polygon s a = map (map (\<lambda>v. of_int (trunc (v * s)))) a"

text \<open>
  The loop \<^verbatim>\<open>for i, z in enumerate(self.zs)\<close> that points annotator \<open>i\<close> at the new
  zone \<open>i\<close> and recomputes its centre; \<^verbatim>\<open>self.zones[i]\<close> raises \<^verbatim>\<open>IndexError\<close> when
  there are fewer annotators than zones.
\<close>

fun retarget ::
  "('fr, 'h, 'lz, 'pz) ext \<Rightarrow> nat \<Rightarrow> 'pz list \<Rightarrow> PolygonZoneAnnotator list
     \<Rightarrow> pyerror + PolygonZoneAnnotator list" where
  "retarget ext i [] zas = Inr zas"
| "retarget ext i (z # rest) zas =
     (if i < length zas
      then retarget ext (Suc i) rest
             (zas[i := (zas ! i)\<lparr>z_zone := i,
                                 z_center := get_polygon_center ext (pz_polygon ext z)\<rparr>])
      else Inl IndexError)"

text \<open>
  \<^verbatim>\<open>scale = f.shape[0] / self.reso[1]\<close> is a division of two Python integers: it
  raises \<^verbatim>\<open>ZeroDivisionError\<close> when the recorded height is zero. \<open>scale_factor\<close> is
  its value when it does not raise.
\<close>

definition scale_factor :: "('fr, 'h, 'lz, 'pz) ext \<Rightarrow> 'fr \<Rightarrow> ('h, 'lz, 'pz) Annotator \<Rightarrow> rat" where
  "scale_factor ext f st = of_nat (fst (shape ext f)) / of_int (snd (reso st))"

definition update ::
  "('fr, 'h, 'lz, 'pz) ext \<Rightarrow> 'fr \<Rightarrow> ('h, 'lz, 'pz) Annotator
     \<Rightarrow> pyerror + ('h, 'lz, 'pz) Annotator" where
  "update ext f st =
     (if snd (reso st) = 0 then Inl ZeroDivisionError
      else
        let scale = scale_factor ext f st in
        andthen (traverse (scaled_line_zone ext scale) (lines (draw st))) (\<lambda>l.
        andthen (traverse (polygon_zone_of ext (reso st)) (zones (draw st))) (\<lambda>origin_zs.
          let z = map (\<lambda>oz. new_polygon_zone ext (scale_polygon scale (pz_polygon ext oz))
                          (int (snd (shape ext f)), int (fst (shape ext f)))) origin_zs
          in andthen (retarget ext 0 z (a_zones st)) (\<lambda>zas.
               Inr (st\<lparr>ls := l, zs := z, a_zones := zas\<rparr>)))))"

subsection \<open>Annotator.__call__\<close>

text \<open>The render pass (\<^verbatim>\<open>core.py\<close>, lines 301 to 384), step by step.\<close>

text \<open>\<^verbatim>\<open>det.xyxy.astype(int)\<close>, one row.\<close>

definition box_int :: "rat \<times> rat \<times> rat \<times> rat \<Rightarrow> int \<times> int \<times> int \<times> int" where
  "box_int b = (case b of (x0, y0, x1, y1) \<Rightarrow> (trunc x0, trunc y0, trunc x1, trunc y1))"

text \<open>
  \<^verbatim>\<open>avg_rgb\<close>: the single cluster centre that \<^verbatim>\<open>cv2.kmeans\<close> finds for the pixels of
  the region (\<open>kmeans_center\<close> stands for the library call on the reshaped and
  colour-converted region), cast to integers.
\<close>

definition avg_rgb :: "('fr, 'h, 'lz, 'pz) ext \<Rightarrow> 'fr \<Rightarrow> pyerror + int \<times> int \<times> int" where
  "avg_rgb ext c = andthen (kmeans_center ext c) (\<lambda>(r, g, b). Inr (trunc r, trunc g, trunc b))"

text \<open>\<^verbatim>\<open>xs[n]\<close> on a list, for an index that is not negative.\<close>

definition list_index :: "'a list \<Rightarrow> nat \<Rightarrow> pyerror + 'a" where
  "list_index xs n = (if n < length xs then Inr (xs ! n) else Inl IndexError)"

text \<open>
  One round of the loop under \<^verbatim>\<open>if dp.predict_color\<close>, for the box \<open>bb\<close>: the region is
  cropped from the frame buffer \<open>f\<close> as it is when the round starts, and the label is
  painted into that buffer.
\<close>

definition color_step ::
  "('fr, 'h, 'lz, 'pz) ext \<Rightarrow> Tweak \<Rightarrow> 'fr \<Rightarrow> int \<times> int \<times> int \<times> int \<Rightarrow> pyerror + 'fr" where
  "color_step ext tw f bb =
     (case bb of (x0, y0, x1, y1) \<Rightarrow>
        let x = (x0 + x1) div 2; y = (y0 + y1) div 2; cropped = crop ext f bb in
        andthen (avg_rgb ext cropped) (\<lambda>rgb.
        andthen (closest rgb (rgb2ycc (colors_rgb ext))) (\<lambda>predict.
        andthen (list_index (colors_rgb ext) predict) (\<lambda>(r, g, b).
        andthen (list_index (colors ext) predict) (\<lambda>name.
          Inr (draw_text ext f name (Point (PInt x) (PInt (y + 20)))
                 (Color (255 - r) (255 - g) (255 - b)) (text_scale tw) (text_padding tw)
                 (Some (Color r g b))))))))"

fun color_pass ::
  "('fr, 'h, 'lz, 'pz) ext \<Rightarrow> Tweak \<Rightarrow> 'fr \<Rightarrow> (int \<times> int \<times> int \<times> int) list \<Rightarrow> pyerror + 'fr" where
  "color_pass ext tw f [] = Inr f"
| "color_pass ext tw f (bb # bbs) = andthen (color_step ext tw f bb) (\<lambda>f'. color_pass ext tw f' bbs)"

text \<open>
  The label of one detection:
  \<^verbatim>\<open>f'{conf:0.2f} {names[cl] if len(names) else cl}' + (f' {track_id}' if track_id else '')\<close>.
\<close>

definition label_of ::
  "('fr, 'h, 'lz, 'pz) ext \<Rightarrow> (int \<times> string) list \<Rightarrow> 'fr detection \<Rightarrow> pyerror + string" where
  "label_of ext nms d =
     andthen
       (if nms \<noteq> []
        then (case map_of nms (class_id d) of None \<Rightarrow> Inl KeyError | Some n \<Rightarrow> Inr n)
        else Inr (fmt_int ext (class_id d)))
       (\<lambda>n. Inr (fmt_conf ext (confidence d) @ [CHR '' ''] @ n @
                  (case tracker_id d of
                     None \<Rightarrow> []
                   | Some t \<Rightarrow> if t \<noteq> 0 then [CHR '' ''] @ fmt_int ext t else [])))"

text \<open>One round of the loop under \<^verbatim>\<open>if dp.area\<close>.\<close>

definition area_step ::
  "('fr, 'h, 'lz, 'pz) ext \<Rightarrow> Color \<Rightarrow> Tweak \<Rightarrow> 'fr \<Rightarrow> 'fr detection \<Rightarrow> 'fr" where
  "area_step ext tc tw f d =
     (case box_int (xyxy d) of (x0, y0, x1, y1) \<Rightarrow>
        draw_text ext f (fmt_int ext (trunc (det_area d)))
          (Point (PInt ((x0 + x1) div 2)) (PInt ((y0 + y1) div 2)))
          tc (text_scale tw) (text_padding tw) None)"

text \<open>
  \<^verbatim>\<open>for l in self.ls: l.trigger(det); self.line.annotate(frame=f, line_counter=l)\<close>:
  the trigger updates the line object, the painter writes into the frame.
\<close>

fun line_pass ::
  "('fr, 'h, 'lz, 'pz) ext \<Rightarrow> LineZoneAnnotator \<Rightarrow> 'fr detection list \<Rightarrow> 'fr \<Rightarrow> 'lz list
     \<Rightarrow> 'lz list \<times> 'fr" where
  "line_pass ext cfg det f [] = ([], f)"
| "line_pass ext cfg det f (l # rest) =
     (let l' = line_trigger ext det l;
          f' = line_annotate ext cfg f l';
          (rest', f'') = line_pass ext cfg det f' rest
      in (l' # rest', f''))"

text \<open>
  \<^verbatim>\<open>for z, zone in zip(self.zs, self.zones): z.trigger(det); f = zone.annotate(f)\<close>.
  \<^verbatim>\<open>zip\<close> stops at the shorter of the two lists. Round \<open>i\<close> triggers zone \<open>i\<close>; the
  annotator then paints the zone it refers to, as that zone is now. (A reference is always to a member of \<^verbatim>\<open>zs\<close>; for an index outside the
  list, which the program cannot produce, the model paints nothing.)
\<close>

definition zone_step ::
  "('fr, 'h, 'lz, 'pz) ext \<Rightarrow> 'fr detection list \<Rightarrow> PolygonZoneAnnotator list
     \<Rightarrow> 'pz list \<times> 'fr \<Rightarrow> nat \<Rightarrow> 'pz list \<times> 'fr" where
  "zone_step ext det zas acc i =
     (case acc of (z, f) \<Rightarrow>
        let z' = z[i := zone_trigger ext det (z ! i)];
            k = z_zone (zas ! i)
        in (z', if k < length z' then zone_annotate ext (zas ! i) (z' ! k) f else f))"

definition zone_pass ::
  "('fr, 'h, 'lz, 'pz) ext \<Rightarrow> 'fr detection list \<Rightarrow> PolygonZoneAnnotator list \<Rightarrow> 'pz list
     \<Rightarrow> 'fr \<Rightarrow> 'pz list \<times> 'fr" where
  "zone_pass ext det zas z f =
     foldl (zone_step ext det zas) (z, f) [0 ..< min (length z) (length zas)]"


text \<open>
  The render pass. \<open>elapsed\<close> is what \<^verbatim>\<open>time.time() - begin\<close> measures when the fps
  label is drawn. The result is the Annotator (its triggers have seen the detections),
  the annotated frame and the model's own preview image.
\<close>

definition Annotator_call ::
  "('fr, 'h, 'lz, 'pz) ext \<Rightarrow> rat \<Rightarrow> ('h, 'lz, 'pz) Annotator \<Rightarrow> 'fr
     \<Rightarrow> pyerror + ('h, 'lz, 'pz) Annotator \<times> 'fr \<times> 'fr" where
  "Annotator_call ext elapsed st f =
     (let dp = display st; tw = tweak st; nms = names (model st) in
      andthen (run_det ext (model st) f) (\<lambda>(det, res).
      andthen (if predict_color dp
               then color_pass ext tw f (map (\<lambda>d. box_int (xyxy d)) det)
               else Inr f) (\<lambda>f1.
      andthen (if box dp
               then andthen (traverse (label_of ext nms) det) (\<lambda>labels.
                      Inr (box_annotate ext (a_box st) f1 det labels (skip_label dp)))
               else Inr f1) (\<lambda>f2.
        let f3 = (if mask dp then mask_annotate ext f2 det (mask_opacity dp) else f2);
            f4 = (if area dp then foldl (area_step ext (a_text_color st) tw) f3 det else f3);
            (ls', f5) = line_pass ext (a_line st) det f4 (ls st);
            (zs', f6) = zone_pass ext det (a_zones st) (zs st) f5
        in andthen (if fps dp
                    then (if elapsed = 0 then Inl ZeroDivisionError
                          else Inr (draw_text ext f6 (fmt_fps ext (1 / elapsed))
                                      (Point (PInt 50) (PInt 20)) (a_text_color st)
                                      (text_scale tw * 2) (text_padding tw) None))
                    else Inr f6)
             (\<lambda>f7. Inr (st\<lparr>ls := ls', zs := zs'\<rparr>, f7, res))))))"

text \<open>
  The colour pass as the specification words it: every region is cropped from the
  original frame \<open>f0\<close>, while the labels accumulate in the rendered frame \<open>f\<close>.
\<close>

definition color_step_original ::
  "('fr, 'h, 'lz, 'pz) ext \<Rightarrow> Tweak \<Rightarrow> 'fr \<Rightarrow> 'fr \<Rightarrow> int \<times> int \<times> int \<times> int \<Rightarrow> pyerror + 'fr" where
  "color_step_original ext tw f0 f bb =
     (case bb of (x0, y0, x1, y1) \<Rightarrow>
        let x = (x0 + x1) div 2; y = (y0 + y1) div 2; cropped = crop ext f0 bb in
        andthen (avg_rgb ext cropped) (\<lambda>rgb.
        andthen (closest rgb (rgb2ycc (colors_rgb ext))) (\<lambda>predict.
        andthen (list_index (colors_rgb ext) predict) (\<lambda>(r, g, b).
        andthen (list_index (colors ext) predict) (\<lambda>name.
          Inr (draw_text ext f name (Point (PInt x) (PInt (y + 20)))
                 (Color (255 - r) (255 - g) (255 - b)) (text_scale tw) (text_padding tw)
                 (Some (Color r g b))))))))"


section \<open>ConfigCodec: dump and load\<close>

text \<open>
  \<^verbatim>\<open>__dict__\<close>, \<^verbatim>\<open>dump\<close> and \<^verbatim>\<open>load\<close> (\<^verbatim>\<open>core.py\<close>, lines 278 to 299). A configuration
  document is a JSON tree. \<^verbatim>\<open>json.dump\<close> writes a list and a tuple alike as an array,
  and \<^verbatim>\<open>json.load\<close> reads every array back as a list.
\<close>

datatype json =
    JNull
  | JBool bool
  | JInt int
  | JFloat rat
  | JStr string
  | JArr "json list"
  | JObj "(string \<times> json) list"

primrec to_json :: "pyval \<Rightarrow> json" where
  "to_json PNone = JNull"
| "to_json (PBool b) = JBool b"
| "to_json (PInt n) = JInt n"
| "to_json (PFloat x) = JFloat x"
| "to_json (PStr s) = JStr s"
| "to_json (PList xs) = JArr (map to_json xs)"
| "to_json (PTuple xs) = JArr (map to_json xs)"
| "to_json (PDict kvs) = JObj (map (map_prod id to_json) kvs)"

primrec of_json :: "json \<Rightarrow> pyval" where
  "of_json JNull = PNone"
| "of_json (JBool b) = PBool b"
| "of_json (JInt n) = PInt n"
| "of_json (JFloat x) = PFloat x"
| "of_json (JStr s) = PStr s"
| "of_json (JArr xs) = PList (map of_json xs)"
| "of_json (JObj kvs) = PDict (map (map_prod id of_json) kvs)"

text \<open>A value with every tuple in it turned into a list.\<close>

primrec detuple :: "pyval \<Rightarrow> pyval" where
  "detuple PNone = PNone"
| "detuple (PBool b) = PBool b"
| "detuple (PInt n) = PInt n"
| "detuple (PFloat x) = PFloat x"
| "detuple (PStr s) = PStr s"
| "detuple (PList xs) = PList (map detuple xs)"
| "detuple (PTuple xs) = PList (map detuple xs)"
| "detuple (PDict kvs) = PDict (map (map_prod id detuple) kvs)"

text \<open>\<^verbatim>\<open>dataclasses.asdict\<close> for each of the four dataclasses.\<close>

definition ModelInfo_asdict :: "ModelInfo \<Rightarrow> pyval" where
  "ModelInfo_asdict i =
     PDict [(''path'', PStr (path i)), (''classes'', PList (map PInt (classes i))),
            (''ver'', PStr (ver i)), (''task'', PStr (task i)), (''conf'', PFloat (conf i)),
            (''tracker'', case tracker i of None \<Rightarrow> PNone | Some t \<Rightarrow> PStr t)]"

definition Draw_asdict :: "Draw \<Rightarrow> pyval" where
  "Draw_asdict d = PDict [(''lines'', PList (lines d)), (''zones'', PList (zones d))]"

definition Display_asdict :: "Display \<Rightarrow> pyval" where
  "Display_asdict d =
     PDict [(''fps'', PBool (fps d)), (''predict_color'', PBool (predict_color d)),
            (''box'', PBool (box d)), (''skip_label'', PBool (skip_label d)),
            (''mask'', PBool (mask d)), (''mask_opacity'', PFloat (mask_opacity d)),
            (''area'', PBool (area d))]"

definition Tweak_asdict :: "Tweak \<Rightarrow> pyval" where
  "Tweak_asdict t =
     PDict [(''thickness'', PInt (thickness t)), (''text_scale'', PFloat (text_scale t)),
            (''text_offset'', PInt (text_offset t)), (''text_padding'', PInt (text_padding t)),
            (''text_color'', PStr (text_color t))]"

text \<open>\<^verbatim>\<open>Annotator.__dict__\<close>.\<close>

definition Annotator_dict :: "('h, 'lz, 'pz) Annotator \<Rightarrow> pyval" where
  "Annotator_dict st =
     PDict [(''model'', ModelInfo_asdict (info (model st))), (''draw'', Draw_asdict (draw st)),
            (''display'', Display_asdict (display st)), (''tweak'', Tweak_asdict (tweak st))]"

text \<open>
  \<^verbatim>\<open>dump\<close> writes the document to \<open>p\<close>. The file system is a map from paths to the
  documents stored there.
\<close>

definition dump ::
  "string \<Rightarrow> ('h, 'lz, 'pz) Annotator \<Rightarrow> (string \<Rightarrow> json option) \<Rightarrow> (string \<Rightarrow> json option)" where
  "dump p st fs = fs(p \<mapsto> to_json (Annotator_dict st))"

text \<open>
  \<^verbatim>\<open>dacite.from_dict\<close>, field by field: a key that is absent gives the field's default,
  a value of the wrong type raises \<^verbatim>\<open>WrongTypeError\<close>. As in Python, a \<^verbatim>\<open>bool\<close> passes
  for an \<^verbatim>\<open>int\<close>, and an \<^verbatim>\<open>int\<close> for a \<^verbatim>\<open>float\<close>.
\<close>

definition field_bool :: "pydict \<Rightarrow> string \<Rightarrow> bool \<Rightarrow> pyerror + bool" where
  "field_bool d k dflt =
     (case map_of d k of None \<Rightarrow> Inr dflt | Some (PBool b) \<Rightarrow> Inr b | Some _ \<Rightarrow> Inl WrongTypeError)"

definition field_int :: "pydict \<Rightarrow> string \<Rightarrow> int \<Rightarrow> pyerror + int" where
  "field_int d k dflt =
     (case map_of d k of
        None \<Rightarrow> Inr dflt
      | Some (PInt n) \<Rightarrow> Inr n
      | Some (PBool b) \<Rightarrow> Inr (if b then 1 else 0)
      | Some _ \<Rightarrow> Inl WrongTypeError)"

definition field_float :: "pydict \<Rightarrow> string \<Rightarrow> rat \<Rightarrow> pyerror + rat" where
  "field_float d k dflt =
     (case map_of d k of
        None \<Rightarrow> Inr dflt
      | Some v \<Rightarrow> (case number_of v of None \<Rightarrow> Inl WrongTypeError | Some x \<Rightarrow> Inr x))"

definition field_str :: "pydict \<Rightarrow> string \<Rightarrow> string \<Rightarrow> pyerror + string" where
  "field_str d k dflt =
     (case map_of d k of None \<Rightarrow> Inr dflt | Some (PStr s) \<Rightarrow> Inr s | Some _ \<Rightarrow> Inl WrongTypeError)"

definition field_opt_str :: "pydict \<Rightarrow> string \<Rightarrow> string option \<Rightarrow> pyerror + string option" where
  "field_opt_str d k dflt =
     (case map_of d k of
        None \<Rightarrow> Inr dflt
      | Some PNone \<Rightarrow> Inr None
      | Some (PStr s) \<Rightarrow> Inr (Some s)
      | Some _ \<Rightarrow> Inl WrongTypeError)"

definition field_list :: "pydict \<Rightarrow> string \<Rightarrow> pyval list \<Rightarrow> pyerror + pyval list" where
  "field_list d k dflt =
     (case map_of d k of None \<Rightarrow> Inr dflt | Some (PList xs) \<Rightarrow> Inr xs | Some _ \<Rightarrow> Inl WrongTypeError)"

fun int_item :: "pyval \<Rightarrow> pyerror + int" where
  "int_item (PInt n) = Inr n"
| "int_item (PBool b) = Inr (if b then 1 else 0)"
| "int_item _ = Inl WrongTypeError"

definition field_int_list :: "pydict \<Rightarrow> string \<Rightarrow> int list \<Rightarrow> pyerror + int list" where
  "field_int_list d k dflt =
     (case map_of d k of
        None \<Rightarrow> Inr dflt
      | Some (PList xs) \<Rightarrow> traverse int_item xs
      | Some _ \<Rightarrow> Inl WrongTypeError)"

text \<open>
  \<^verbatim>\<open>d[k]\<close> on the loaded document, and the section it names. The model reads a section
  only when it is an object: a document whose section is something else is not one
  \<^verbatim>\<open>dump\<close> writes, and the model raises \<^verbatim>\<open>TypeError\<close> for it.
\<close>

fun section_of :: "pyval \<Rightarrow> string \<Rightarrow> pyerror + pydict" where
  "section_of (PDict kvs) k =
     (case map_of kvs k of
        None \<Rightarrow> Inl KeyError
      | Some (PDict d) \<Rightarrow> Inr d
      | Some _ \<Rightarrow> Inl TypeError)"
| "section_of _ k = Inl TypeError"

definition ModelInfo_from_dict :: "pydict \<Rightarrow> pyerror + ModelInfo" where
  "ModelInfo_from_dict d =
     andthen (field_str d ''path'' ''yolov8n.pt'') (\<lambda>p.
     andthen (field_int_list d ''classes'' []) (\<lambda>c.
     andthen (field_str d ''ver'' ''v8'') (\<lambda>v.
     andthen (field_str d ''task'' ''detect'') (\<lambda>t.
     andthen (field_float d ''conf'' (1 / 4)) (\<lambda>cf.
     andthen (field_opt_str d ''tracker'' None) (\<lambda>tr.
       Inr \<lparr>path = p, classes = c, ver = v, task = t, conf = cf, tracker = tr\<rparr>))))))"

definition Display_from_dict :: "pydict \<Rightarrow> pyerror + Display" where
  "Display_from_dict d =
     andthen (field_bool d ''fps'' True) (\<lambda>a.
     andthen (field_bool d ''predict_color'' False) (\<lambda>b.
     andthen (field_bool d ''box'' True) (\<lambda>c.
     andthen (field_bool d ''skip_label'' False) (\<lambda>e.
     andthen (field_bool d ''mask'' True) (\<lambda>m.
     andthen (field_float d ''mask_opacity'' (1 / 2)) (\<lambda>mo.
     andthen (field_bool d ''area'' True) (\<lambda>ar.
       Inr \<lparr>fps = a, predict_color = b, box = c, skip_label = e, mask = m,
            mask_opacity = mo, area = ar\<rparr>)))))))"

definition Tweak_from_dict :: "pydict \<Rightarrow> pyerror + Tweak" where
  "Tweak_from_dict d =
     andthen (field_int d ''thickness'' 1) (\<lambda>th.
     andthen (field_float d ''text_scale'' (1 / 2)) (\<lambda>sc.
     andthen (field_int d ''text_offset'' 1) (\<lambda>off.
     andthen (field_int d ''text_padding'' 2) (\<lambda>pad.
     andthen (field_str d ''text_color'' ''#000000'') (\<lambda>col.
       Inr \<lparr>thickness = th, text_scale = sc, text_offset = off, text_padding = pad,
            text_color = col\<rparr>)))))"

definition Draw_from_dict :: "pydict \<Rightarrow> pyerror + Draw" where
  "Draw_from_dict d =
     andthen (field_list d ''lines'' []) (\<lambda>l.
     andthen (field_list d ''zones'' []) (\<lambda>z.
       Inr \<lparr>lines = l, zones = z\<rparr>))"

text \<open>
  \<^verbatim>\<open>Annotator.load\<close>: the arguments of the constructor call are evaluated in the order
  written (model, display, tweak, draw), then the constructor runs.
\<close>

definition load ::
  "('fr, 'h, 'lz, 'pz) ext \<Rightarrow> string \<Rightarrow> int \<times> int \<Rightarrow> (string \<Rightarrow> json option)
     \<Rightarrow> pyerror + ('h, 'lz, 'pz) Annotator" where
  "load ext p r fs =
     (case fs p of
        None \<Rightarrow> Inl FileNotFoundError
      | Some j \<Rightarrow>
          let d = of_json j in
          andthen (section_of d ''model'') (\<lambda>dm.
          andthen (ModelInfo_from_dict dm) (\<lambda>mi.
          andthen (Model_init ext mi) (\<lambda>m.
          andthen (section_of d ''display'') (\<lambda>dd.
          andthen (Display_from_dict dd) (\<lambda>dp.
          andthen (section_of d ''tweak'') (\<lambda>dt.
          andthen (Tweak_from_dict dt) (\<lambda>tw.
          andthen (section_of d ''draw'') (\<lambda>ddr.
          andthen (Draw_from_dict ddr) (\<lambda>dr.
            Annotator_init ext m r dr dp tw))))))))))"

section \<open>A small instance of the collaborators\<close>

text \<open>
  The closed examples below run the program on a concrete instance of the external
  collaborators. A frame is a grid of pixels, given row by row. Each painter is cut
  down to one pixel of what the library paints: \<open>draw_text\<close> sets the pixel at the
  text anchor to the text colour, the line painter sets the pixel at the start of the
  line, the zone painter the pixel at the first vertex, the box painter the top-left
  corner of every box. The network handle is the list of detections the network will
  report; the preview image is the frame itself. A line trigger counts every detection
  it is shown as a crossing, a polygon trigger counts the detections of the last frame.
  The single cluster centre of a region is the mean of its pixels.
\<close>

type_synonym image = "Color list list"

definition put_pixel :: "image \<Rightarrow> int \<Rightarrow> int \<Rightarrow> Color \<Rightarrow> image" where
  "put_pixel f x y c =
     (if 0 \<le> y \<and> nat y < length f \<and> 0 \<le> x \<and> nat x < length (f ! nat y)
      then f[nat y := (f ! nat y)[nat x := c]]
      else f)"

fun pixel_of :: "pyval \<Rightarrow> int option" where
  "pixel_of (PInt n) = Some n"
| "pixel_of (PFloat x) = Some (trunc x)"
| "pixel_of _ = None"

fun put_at :: "image \<Rightarrow> Point \<Rightarrow> Color \<Rightarrow> image" where
  "put_at f (Point px py) c =
     (case (pixel_of px, pixel_of py) of
        (Some x, Some y) \<Rightarrow> put_pixel f x y c
      | _ \<Rightarrow> f)"

definition crop_image :: "image \<Rightarrow> int \<times> int \<times> int \<times> int \<Rightarrow> image" where
  "crop_image f bb =
     (case bb of (x0, y0, x1, y1) \<Rightarrow>
        map (\<lambda>row. take (nat (x1 - x0)) (drop (nat x0) row)) (take (nat (y1 - y0)) (drop (nat y0) f)))"

fun channels :: "Color \<Rightarrow> rat \<times> rat \<times> rat" where
  "channels (Color r g b) = (of_int r, of_int g, of_int b)"

definition mean_color :: "image \<Rightarrow> pyerror + rat \<times> rat \<times> rat" where
  "mean_color f =
     (let px = map channels (concat f); n = of_nat (length px) in
      if px = [] then Inl ValueError
      else Inr (sum_list (map fst px) / n, sum_list (map (\<lambda>p. fst (snd p)) px) / n,
                sum_list (map (\<lambda>p. snd (snd p)) px) / n))"

definition mean_vertex :: "ndarray \<Rightarrow> Point" where
  "mean_vertex a =
     (if a = [] then Point (PInt 0) (PInt 0)
      else Point (PInt (trunc (sum_list (map (\<lambda>r. r ! 0) a) / of_nat (length a))))
                 (PInt (trunc (sum_list (map (\<lambda>r. r ! 1) a) / of_nat (length a)))))"

definition first_vertex :: "ndarray \<Rightarrow> Point" where
  "first_vertex a =
     (case a of (x # y # _) # _ \<Rightarrow> Point (PFloat x) (PFloat y) | _ \<Rightarrow> Point PNone PNone)"

type_synonym ref_line = "Point \<times> Point \<times> int \<times> int"

type_synonym ref_zone = "ndarray \<times> int"

definition ref_ext :: "(image, image detection list, ref_line, ref_zone) ext" where
  "ref_ext =
     \<lparr>colors = [''black'', ''white'', ''red''],
      colors_rgb = [(0, 0, 0), (255, 255, 255), (255, 0, 0)],
      load_rtdetr = (\<lambda>p. Inr []),
      load_yolo = (\<lambda>p. Inr []),
      load_yolov5 = (\<lambda>p. Inr []),
      model_names = (\<lambda>h. []),
      set_legacy = (\<lambda>c cf h. h),
      run_det = (\<lambda>m f. Inr (m_model m, f)),
      shape = (\<lambda>f. (length f, case f of [] \<Rightarrow> 0 | r # _ \<Rightarrow> length r)),
      crop = crop_image,
      kmeans_center = mean_color,
      draw_text = (\<lambda>f txt p tc sc pad bg. put_at f p tc),
      box_annotate = (\<lambda>cfg f det labels skip.
         foldl (\<lambda>g d. case box_int (xyxy d) of (x0, y0, x1, y1) \<Rightarrow>
                         put_pixel g x0 y0 (b_text_color cfg)) f det),
      mask_annotate = (\<lambda>f det op. f),
      new_line_zone = (\<lambda>s e. (s, e, 0, 0)),
      line_trigger = (\<lambda>det l. case l of (s, e, i, out) \<Rightarrow> (s, e, i + int (length det), out)),
      line_counts = (\<lambda>l. case l of (s, e, i, out) \<Rightarrow> (i, out)),
      line_annotate = (\<lambda>cfg f l. case l of (s, e, i, out) \<Rightarrow> put_at f s (l_text_color cfg)),
      new_polygon_zone = (\<lambda>a r. (a, 0)),
      pz_polygon = fst,
      zone_trigger = (\<lambda>det z. (fst z, int (length det))),
      zone_annotate = (\<lambda>za z f. put_at f (first_vertex (fst z)) (z_color za)),
      get_polygon_center = mean_vertex,
      by_idx = (\<lambda>i. Color 255 (int i) 0),
      from_hex = (\<lambda>s. if s = ''#000000'' then Inr (Color 0 0 0)
                       else if s = ''#ffffff'' then Inr (Color 255 255 255)
                       else Inl ValueError),
      fmt_conf = (\<lambda>c. []),
      fmt_fps = (\<lambda>c. []),
      fmt_int = (\<lambda>c. [])\<rparr>"

text \<open>Sample canvas records: the line and the rectangle of the specification's scenarios,
  a freehand triangle, a record of a kind the extractor does not know, a record with
  no \<^verbatim>\<open>type\<close> key, and a line record whose end points are not there yet.\<close>

definition canvas_line :: pydict where
  "canvas_line =
     [(''type'', PStr ''line''), (''left'', PInt 0), (''top'', PInt 0),
      (''x1'', PInt 0), (''y1'', PInt 0), (''x2'', PInt 100), (''y2'', PInt 0)]"

definition canvas_rect :: pydict where
  "canvas_rect =
     [(''type'', PStr ''rect''), (''left'', PInt 10), (''top'', PInt 10),
      (''width'', PInt 50), (''height'', PInt 20)]"

definition canvas_path :: pydict where
  "canvas_path =
     [(''type'', PStr ''path''),
      (''path'', PList [PList [PStr ''M'', PInt 1, PInt 2], PList [PStr ''L'', PInt 3, PInt 4],
                        PList [PStr ''L'', PInt 5, PInt 6], PList [PStr ''z'']])]"

definition canvas_circle :: pydict where
  "canvas_circle = [(''type'', PStr ''circle''), (''left'', PInt 3), (''radius'', PInt 4)]"

definition canvas_untyped :: pydict where
  "canvas_untyped = [(''left'', PInt 0), (''top'', PInt 0)]"

definition canvas_partial_line :: pydict where
  "canvas_partial_line = [(''type'', PStr ''line''), (''left'', PInt 0), (''top'', PInt 0)]"

text \<open>Sample configurations and frames.\<close>

definition all_off :: Display where
  "all_off =
     \<lparr>fps = False, predict_color = False, box = False, skip_label = False, mask = False,
      mask_opacity = 1 / 2, area = False\<rparr>"

definition default_tweak :: Tweak where
  "default_tweak =
     \<lparr>thickness = 1, text_scale = 1 / 2, text_offset = 1, text_padding = 2,
      text_color = ''#000000''\<rparr>"

definition default_info :: ModelInfo where
  "default_info =
     \<lparr>path = ''yolov8n.pt'', classes = [], ver = ''v8'', task = ''detect'', conf = 1 / 4,
      tracker = None\<rparr>"

definition ref_model :: "image detection list \<Rightarrow> image detection list Model" where
  "ref_model dets =
     \<lparr>m_classes = [], m_conf = 1 / 4, m_tracker = None, legacy = False, m_model = dets,
      names = [], info = default_info\<rparr>"

definition blank :: "nat \<Rightarrow> nat \<Rightarrow> Color \<Rightarrow> image" where
  "blank h w c = replicate h (replicate w c)"


definition det_at :: "rat \<times> rat \<times> rat \<times> rat \<Rightarrow> image detection" where
  "det_at b =
     \<lparr>xyxy = b, det_mask = None, confidence = 9 / 10, class_id = 0, tracker_id = None,
      det_area = 1\<rparr>"

definition line_draw :: Draw where
  "line_draw = \<lparr>lines = [PTuple [PTuple [PInt 0, PInt 0], PTuple [PInt 100, PInt 0]]], zones = []\<rparr>"

definition zone_draw :: Draw where
  "zone_draw =
     \<lparr>lines = [],
      zones = [PList [PList [PInt 3, PInt 3], PList [PInt 7, PInt 3], PList [PInt (- 3), PInt 9]]]\<rparr>"

definition empty_draw :: Draw where
  "empty_draw = \<lparr>lines = [], zones = []\<rparr>"

definition both_draw :: Draw where
  "both_draw =
     \<lparr>lines = [PTuple [PTuple [PInt 0, PInt 0], PTuple [PInt 100, PInt 0]]],
      zones = [PList [PList [PInt 3, PInt 3], PList [PInt 7, PInt 3], PList [PInt (- 3), PInt 9]]]\<rparr>"

text \<open>
  An Annotator over the instance, with the default tweak: the network reports \<open>dets\<close>,
  and \<open>l\<close>, \<open>z\<close> and \<open>zas\<close> are its line triggers, polygon triggers and zone annotators.
\<close>

definition ref_state ::
  "int \<times> int \<Rightarrow> Draw \<Rightarrow> Display \<Rightarrow> image detection list \<Rightarrow> ref_line list \<Rightarrow> ref_zone list
     \<Rightarrow> PolygonZoneAnnotator list \<Rightarrow> (image detection list, ref_line, ref_zone) Annotator" where
  "ref_state r dr dp dets l z zas =
     \<lparr>model = ref_model dets, reso = r, draw = dr, display = dp, tweak = default_tweak,
      ls = l, zs = z, a_text_color = Color 0 0 0,
      a_line = \<lparr>l_thickness = 1, l_text_color = Color 0 0 0, l_text_scale = 1 / 2,
                l_text_offset = 1, l_text_padding = 2\<rparr>,
      a_box = \<lparr>b_thickness = 1, b_text_color = Color 0 0 0, b_text_scale = 1 / 2,
               b_text_padding = 2\<rparr>,
      a_zones = zas\<rparr>"

definition ref_zone_annotator :: "nat \<Rightarrow> Point \<Rightarrow> PolygonZoneAnnotator" where
  "ref_zone_annotator i c =
     \<lparr>z_thickness = 1, z_text_color = Color 0 0 0, z_text_scale = 1 / 2, z_text_padding = 2,
      z_zone = i, z_color = Color 255 (int i) 0, z_center = c\<rparr>"

section \<open>Sequencing and comprehensions\<close>

lemma andthen_Inl [simp]: "andthen (Inl e) f = Inl e"
  by (simp add: andthen_def)

lemma andthen_Inr [simp]: "andthen (Inr v) f = f v"
  by (simp add: andthen_def)

lemma andthen_eq_Inr: "andthen m f = Inr y \<longleftrightarrow> (\<exists>v. m = Inr v \<and> f v = Inr y)"
  by (cases m) simp_all

lemma traverse_eq_Inr: "traverse f xs = Inr ys \<longleftrightarrow> list_all2 (\<lambda>x y. f x = Inr y) xs ys"
proof (induction xs arbitrary: ys)
  case Nil
  show ?case by auto
next
  case (Cons x xs)
  show ?case
    by (auto simp: andthen_eq_Inr Cons.IH list_all2_Cons1)
qed

lemma getitem_eq_Inr: "getitem i k = Inr v \<longleftrightarrow> map_of i k = Some v"
  by (simp add: getitem_def split: option.splits)

section \<open>Draw.from_canvas: the order of the output\<close>

lemma select_kind_Inr:
  "select_kind k e d = Inr ys \<Longrightarrow> list_all2 (\<lambda>i y. e i = Inr y) (filter (has_kind k) d) ys"
proof (induction d arbitrary: ys)
  case Nil
  then show ?case by simp
next
  case (Cons i d)
  then show ?case
    by (auto simp: andthen_eq_Inr getitem_eq_Inr has_kind_def split: if_splits)
qed

text \<open>
  The three comprehensions of the path operand, run one after the other over the whole
  input, give for each path record what the record gives on its own.
\<close>

lemma path_zones_Inr:
  assumes "path_zones d = Inr ps"
  shows "list_all2 (\<lambda>i p. path_zone_of i = Inr p) (filter (has_kind ''path'') d) ps"
proof -
  from assms obtain js ks where
    js: "select_kind ''path'' (\<lambda>i. getitem i ''path'') d = Inr js" and
    ks: "traverse py_drop_last js = Inr ks" and
    ps: "traverse polygon_of ks = Inr ps"
    by (auto simp: path_zones_def andthen_eq_Inr)
  have a: "list_all2 (\<lambda>i j. getitem i ''path'' = Inr j) (filter (has_kind ''path'') d) js"
    using select_kind_Inr [OF js] .
  have b: "list_all2 (\<lambda>j k. py_drop_last j = Inr k) js ks"
    using ks by (simp add: traverse_eq_Inr)
  have c: "list_all2 (\<lambda>k p. polygon_of k = Inr p) ks ps"
    using ps by (simp add: traverse_eq_Inr)
  have ab: "list_all2 (\<lambda>i k. \<exists>j. getitem i ''path'' = Inr j \<and> py_drop_last j = Inr k)
              (filter (has_kind ''path'') d) ks"
    using a b by (rule list_all2_trans [rotated]) blast
  show ?thesis
    using ab c by (rule list_all2_trans [rotated]) (auto simp: path_zone_of_def)
qed

lemmas canvas_eval =
  from_canvas_def path_zones_def getitem_def line_of_def rect_of_def py_add_def
  polygon_of_def vertex_of_def path_zone_of_def zone_of_def has_kind_def
  zones_in_record_order_def List.map_filter_def
  canvas_line_def canvas_rect_def canvas_path_def canvas_circle_def canvas_untyped_def
  canvas_partial_line_def

lemma from_canvas_sample:
  "from_canvas [canvas_rect, canvas_line, canvas_path] =
     Inr \<lparr>lines = [PTuple [PTuple [PInt 0, PInt 0], PTuple [PInt 100, PInt 0]]],
          zones = [PList [PList [PInt 1, PInt 2], PList [PInt 3, PInt 4], PList [PInt 5, PInt 6]],
                   PList [PList [PInt 10, PInt 10], PList [PInt 60, PInt 10],
                          PList [PInt 60, PInt 30], PList [PInt 10, PInt 30]]]\<rparr>"
  by (simp add: canvas_eval)

text \<open>
  C5, as stated, fails: a rectangle drawn before a freehand path comes after it in
  \<^verbatim>\<open>zones\<close>, so the polygons are not in the order of their records.
\<close>

theorem from_canvas_zone_order_counterexample:
  "from_canvas [canvas_rect, canvas_path] =
     Inr \<lparr>lines = [],
          zones = [PList [PList [PInt 1, PInt 2], PList [PInt 3, PInt 4], PList [PInt 5, PInt 6]],
                   PList [PList [PInt 10, PInt 10], PList [PInt 60, PInt 10],
                          PList [PInt 60, PInt 30], PList [PInt 10, PInt 30]]]\<rparr> \<and>
   zones_in_record_order [canvas_rect, canvas_path] =
     Inr [PList [PList [PInt 10, PInt 10], PList [PInt 60, PInt 10],
                 PList [PInt 60, PInt 30], PList [PInt 10, PInt 30]],
          PList [PList [PInt 1, PInt 2], PList [PInt 3, PInt 4], PList [PInt 5, PInt 6]]] \<and>
   map_sum id zones (from_canvas [canvas_rect, canvas_path]) \<noteq>
     zones_in_record_order [canvas_rect, canvas_path]"
  by (simp add: canvas_eval)

text \<open>
  C5, amended: whenever \<^verbatim>\<open>Draw.from_canvas\<close> returns, the i-th entry of \<^verbatim>\<open>lines\<close> is the
  line of the i-th line record, and \<^verbatim>\<open>zones\<close> is the polygons of the freehand-path
  records in input order, followed by the polygons of the rectangle records in input
  order.
\<close>

theorem from_canvas_order:
  assumes "from_canvas d = Inr dr"
  shows "list_all2 (\<lambda>i l. line_of i = Inr l) (filter (has_kind ''line'') d) (lines dr) \<and>
         (\<exists>ps rs. zones dr = ps @ rs \<and>
            list_all2 (\<lambda>i p. path_zone_of i = Inr p) (filter (has_kind ''path'') d) ps \<and>
            list_all2 (\<lambda>i r. rect_of i = Inr r) (filter (has_kind ''rect'') d) rs)"
proof -
  from assms obtain l ps rs where
    l: "select_kind ''line'' line_of d = Inr l" and
    ps: "path_zones d = Inr ps" and
    rs: "select_kind ''rect'' rect_of d = Inr rs" and
    dr: "dr = \<lparr>lines = l, zones = ps @ rs\<rparr>"
    by (auto simp: from_canvas_def andthen_eq_Inr)
  show ?thesis
    using select_kind_Inr [OF l] path_zones_Inr [OF ps] select_kind_Inr [OF rs] dr by auto
qed

theorem from_canvas_order_witness:
  "list_all2 (\<lambda>i l. line_of i = Inr l)
     (filter (has_kind ''line'') [canvas_rect, canvas_line, canvas_path])
     [PTuple [PTuple [PInt 0, PInt 0], PTuple [PInt 100, PInt 0]]] \<and>
   (\<exists>ps rs.
      [PList [PList [PInt 1, PInt 2], PList [PInt 3, PInt 4], PList [PInt 5, PInt 6]],
       PList [PList [PInt 10, PInt 10], PList [PInt 60, PInt 10],
              PList [PInt 60, PInt 30], PList [PInt 10, PInt 30]]] = ps @ rs \<and>
      list_all2 (\<lambda>i p. path_zone_of i = Inr p)
        (filter (has_kind ''path'') [canvas_rect, canvas_line, canvas_path]) ps \<and>
      list_all2 (\<lambda>i r. rect_of i = Inr r)
        (filter (has_kind ''rect'') [canvas_rect, canvas_line, canvas_path]) rs)"
  using from_canvas_order [OF from_canvas_sample] by simp

section \<open>Draw.from_canvas: records it does not know, and records it cannot read\<close>








section \<open>ColorClassifier\<close>

lemma argmin_loop_first_minimum:
  assumes "best < length pre" "bv = pre ! best" "k = length pre"
    and "\<forall>j < length pre. bv \<le> pre ! j" and "\<forall>j < best. bv < pre ! j"
  shows "argmin_loop best bv k xs < length (pre @ xs) \<and>
         (\<forall>j < length (pre @ xs). (pre @ xs) ! argmin_loop best bv k xs \<le> (pre @ xs) ! j) \<and>
         (\<forall>j < argmin_loop best bv k xs. (pre @ xs) ! argmin_loop best bv k xs < (pre @ xs) ! j)"
  using assms
proof (induction xs arbitrary: pre best bv k)
  case Nil
  then show ?case by simp
next
  case (Cons x xs)
  show ?case
  proof (cases "x < bv")
    case True
    have "argmin_loop k x (Suc k) xs < length ((pre @ [x]) @ xs) \<and>
         (\<forall>j < length ((pre @ [x]) @ xs).
            ((pre @ [x]) @ xs) ! argmin_loop k x (Suc k) xs \<le> ((pre @ [x]) @ xs) ! j) \<and>
         (\<forall>j < argmin_loop k x (Suc k) xs.
            ((pre @ [x]) @ xs) ! argmin_loop k x (Suc k) xs < ((pre @ [x]) @ xs) ! j)"
    proof (rule Cons.IH)
      show "k < length (pre @ [x])" using Cons.prems by simp
      show "x = (pre @ [x]) ! k" using Cons.prems by simp
      show "Suc k = length (pre @ [x])" using Cons.prems by simp
      show "\<forall>j < length (pre @ [x]). x \<le> (pre @ [x]) ! j"
      proof (intro allI impI)
        fix j assume j: "j < length (pre @ [x])"
        show "x \<le> (pre @ [x]) ! j"
        proof (cases "j < length pre")
          case True
          with Cons.prems(4) have "bv \<le> pre ! j" by blast
          with \<open>x < bv\<close> True show ?thesis by (simp add: nth_append)
        next
          case False
          with j have "j = length pre" by simp
          then show ?thesis by simp
        qed
      qed
      show "\<forall>j < k. x < (pre @ [x]) ! j"
      proof (intro allI impI)
        fix j assume j: "j < k"
        with Cons.prems(3,4) have "bv \<le> pre ! j" by blast
        with \<open>x < bv\<close> j Cons.prems(3) show "x < (pre @ [x]) ! j" by (simp add: nth_append)
      qed
    qed
    with True show ?thesis by simp
  next
    case False
    have "argmin_loop best bv (Suc k) xs < length ((pre @ [x]) @ xs) \<and>
         (\<forall>j < length ((pre @ [x]) @ xs).
            ((pre @ [x]) @ xs) ! argmin_loop best bv (Suc k) xs \<le> ((pre @ [x]) @ xs) ! j) \<and>
         (\<forall>j < argmin_loop best bv (Suc k) xs.
            ((pre @ [x]) @ xs) ! argmin_loop best bv (Suc k) xs < ((pre @ [x]) @ xs) ! j)"
    proof (rule Cons.IH)
      show "best < length (pre @ [x])" using Cons.prems by simp
      show "bv = (pre @ [x]) ! best" using Cons.prems by (simp add: nth_append)
      show "Suc k = length (pre @ [x])" using Cons.prems by simp
      show "\<forall>j < length (pre @ [x]). bv \<le> (pre @ [x]) ! j"
        using Cons.prems False by (auto simp: nth_append less_Suc_eq)
      show "\<forall>j < best. bv < (pre @ [x]) ! j"
        using Cons.prems by (auto simp: nth_append)
    qed
    with False show ?thesis by simp
  qed
qed

text \<open>
  \<^verbatim>\<open>closest\<close> returns the first entry at the least squared distance from the sample, in
  the colour space that \<^verbatim>\<open>rgb2ycc\<close> computes.
\<close>

lemma closest_first_minimum:
  assumes "closest rgb ys = Inr i"
  shows "i < length ys \<and>
         (\<forall>j < length ys. sqdist (ys ! i) (rgb2ycc_row rgb) \<le> sqdist (ys ! j) (rgb2ycc_row rgb)) \<and>
         (\<forall>j < i. sqdist (ys ! i) (rgb2ycc_row rgb) < sqdist (ys ! j) (rgb2ycc_row rgb))"
proof -
  let ?d = "map (\<lambda>c. sqdist c (rgb2ycc_row rgb)) ys"
  from assms obtain x r where xr: "?d = x # r" and i: "i = argmin_loop 0 x 1 r"
    by (auto simp: closest_def argmin_def rgb2ycc_def split: list.splits)
  have "argmin_loop 0 x 1 r < length ([x] @ r) \<and>
         (\<forall>j < length ([x] @ r). ([x] @ r) ! argmin_loop 0 x 1 r \<le> ([x] @ r) ! j) \<and>
         (\<forall>j < argmin_loop 0 x 1 r. ([x] @ r) ! argmin_loop 0 x 1 r < ([x] @ r) ! j)"
    by (rule argmin_loop_first_minimum) simp_all
  then have a: "i < length ?d" and b: "\<forall>j < length ?d. ?d ! i \<le> ?d ! j" and c: "\<forall>j < i. ?d ! i < ?d ! j"
    unfolding xr i by simp_all
  from a have len: "i < length ys" by simp
  from b len have "\<forall>j < length ys. sqdist (ys ! i) (rgb2ycc_row rgb) \<le> sqdist (ys ! j) (rgb2ycc_row rgb)"
    by simp
  moreover from c len have "\<forall>j < i. sqdist (ys ! i) (rgb2ycc_row rgb) < sqdist (ys ! j) (rgb2ycc_row rgb)"
    by simp
  ultimately show ?thesis using len by blast
qed

text \<open>
  The luma and the red chroma of \<^verbatim>\<open>rgb2ycc\<close> are those of the stated transform; the blue
  chroma is lower by one ten-thousandth of the normalised green channel.
\<close>

lemma rgb2ycc_row_against_spec:
  "rgb2ycc_row (r, g, b) =
     (case ycc_spec (r, g, b) of (y, cb, cr) \<Rightarrow> (y, cb - 1 / 10000 * (of_int g / 255), cr))"
  by (simp add: rgb2ycc_row_def ycc_spec_def Let_def field_simps)

text \<open>
  C6: on pure green the program's \<^verbatim>\<open>Cb\<close> is \<open>128 - 0.331364\<close>, where the transform the
  claim states gives \<open>128 - 0.331264\<close>: the coefficient of \<open>G\<close> in \<^verbatim>\<open>rgb2ycc\<close> is
  \<open>0.331364\<close>.
\<close>

theorem rgb2ycc_green_coefficient:
  "rgb2ycc [(0, 255, 0)] = [(587 / 1000, 128 - 331364 / 1000000, 128 - 418688 / 1000000)] \<and>
   ycc_spec (0, 255, 0) = (587 / 1000, 128 - 331264 / 1000000, 128 - 418688 / 1000000) \<and>
   rgb2ycc [(0, 255, 0)] \<noteq> [ycc_spec (0, 255, 0)]"
  by (simp add: rgb2ycc_def rgb2ycc_row_def ycc_spec_def)

section \<open>Truncation\<close>

lemma trunc_of_int [simp]: "trunc (of_int n) = n"
  by (simp add: trunc_def)

lemma trunc_minus: "trunc (- q) = - trunc q"
  by (cases "q = 0") (auto simp: trunc_def ceiling_minus floor_minus)

lemma trunc_numeral [simp]: "trunc (numeral a) = numeral a" "trunc 0 = 0" "trunc 1 = 1"
  by (simp_all add: trunc_def)

lemma trunc_numeral_div [simp]: "trunc (numeral a / numeral b) = numeral a div numeral b"
  using floor_divide_of_int_eq [of "numeral a" "numeral b", where ?'a = rat]
  by (simp add: trunc_def)

lemma trunc_neg_numeral [simp]:
  "trunc (- numeral a) = - numeral a"
  "trunc (- (numeral a / numeral b)) = - (numeral a div numeral b)"
  by (simp_all add: trunc_minus)

section \<open>Annotator.update\<close>

subsection \<open>The loop over the zone annotators\<close>

lemma retarget_length: "retarget ext i z zas = Inr zas' \<Longrightarrow> length zas' = length zas"
  by (induction z arbitrary: i zas) (auto split: if_splits)

lemma retarget_fits: "retarget ext i z zas = Inr zas' \<Longrightarrow> z = [] \<or> i + length z \<le> length zas"
proof (induction z arbitrary: i zas)
  case Nil
  then show ?case by simp
next
  case (Cons a z)
  from Cons.prems have i: "i < length zas" by (auto split: if_splits)
  with Cons.prems have "retarget ext (Suc i) z
      (zas[i := (zas ! i)\<lparr>z_zone := i, z_center := get_polygon_center ext (pz_polygon ext a)\<rparr>]) = Inr zas'"
    by simp
  from Cons.IH [OF this] i show ?case by auto
qed

lemma retarget_succeeds: "i + length z \<le> length zas \<Longrightarrow> \<exists>zas'. retarget ext i z zas = Inr zas'"
  by (induction z arbitrary: i zas) auto

lemma retarget_nth:
  "retarget ext i z zas = Inr zas' \<Longrightarrow> k < length zas \<Longrightarrow>
   zas' ! k =
     (if i \<le> k \<and> k < i + length z
      then (zas ! k)\<lparr>z_zone := k, z_center := get_polygon_center ext (pz_polygon ext (z ! (k - i)))\<rparr>
      else zas ! k)"
proof (induction z arbitrary: i zas)
  case Nil
  then show ?case by auto
next
  case (Cons a z)
  from Cons.prems have i: "i < length zas" by (auto split: if_splits)
  let ?zas = "zas[i := (zas ! i)\<lparr>z_zone := i, z_center := get_polygon_center ext (pz_polygon ext a)\<rparr>]"
  from Cons.prems i have r: "retarget ext (Suc i) z ?zas = Inr zas'" by simp
  have k: "k < length ?zas" using Cons.prems by simp
  show ?case
    using Cons.IH [OF r k] i Cons.prems(2)
    by (auto simp: nth_list_update Suc_diff_le nth_Cons')
qed

text \<open>
  Running the loop again, for as many zones, overwrites what the first run wrote: the
  result is what the second run gives on the annotators as they were.
\<close>

lemma retarget_twice:
  assumes "retarget ext 0 z zas = Inr zas1" and "length z' = length z"
  shows "retarget ext 0 z' zas1 = retarget ext 0 z' zas"
proof (cases "z = []")
  case True
  with assms show ?thesis by simp
next
  case False
  with retarget_fits [OF assms(1)] have fit: "length z \<le> length zas" by simp
  have len1: "length zas1 = length zas" using retarget_length [OF assms(1)] .
  obtain r1 where r1: "retarget ext 0 z' zas1 = Inr r1"
    using retarget_succeeds [of 0 z' zas1 ext] fit len1 assms(2) by auto
  obtain r2 where r2: "retarget ext 0 z' zas = Inr r2"
    using retarget_succeeds [of 0 z' zas ext] fit assms(2) by auto
  have "r1 = r2"
  proof (rule nth_equalityI)
    show "length r1 = length r2"
      using retarget_length [OF r1] retarget_length [OF r2] len1 by simp
  next
    fix k assume "k < length r1"
    then have k: "k < length zas" using retarget_length [OF r1] len1 by simp
    then have k1: "k < length zas1" using len1 by simp
    show "r1 ! k = r2 ! k"
      using retarget_nth [OF r1 k1] retarget_nth [OF r2 k] retarget_nth [OF assms(1) k] assms(2)
      by auto
  qed
  with r1 r2 show ?thesis by simp
qed

subsection \<open>What a call of update that returns has done\<close>

lemma update_Inr:
  "update ext f st = Inr st' \<longleftrightarrow>
     snd (reso st) \<noteq> 0 \<and>
     (\<exists>l oz zas.
        traverse (scaled_line_zone ext (scale_factor ext f st)) (lines (draw st)) = Inr l \<and>
        traverse (polygon_zone_of ext (reso st)) (zones (draw st)) = Inr oz \<and>
        retarget ext 0
          (map (\<lambda>q. new_polygon_zone ext (scale_polygon (scale_factor ext f st) (pz_polygon ext q))
                       (int (snd (shape ext f)), int (fst (shape ext f)))) oz)
          (a_zones st) = Inr zas \<and>
        st' = st\<lparr>ls := l,
                 zs := map (\<lambda>q. new_polygon_zone ext
                                   (scale_polygon (scale_factor ext f st) (pz_polygon ext q))
                                   (int (snd (shape ext f)), int (fst (shape ext f)))) oz,
                 a_zones := zas\<rparr>)"
  by (auto simp: update_def Let_def andthen_eq_Inr)


subsection \<open>The instance, evaluated\<close>

lemmas ref_eval =
  ref_ext_def ref_state_def ref_model_def default_tweak_def default_info_def all_off_def
  line_draw_def zone_draw_def empty_draw_def both_draw_def blank_def ref_zone_annotator_def
  det_at_def Annotator_init_def update_def scale_factor_def line_zone_of_def
  scaled_line_zone_def scaled_coord_def coord_def py_mul_def polygon_zone_of_def np_array_def
  row_of_def zone_annotator_of_def scale_polygon_def mean_vertex_def Let_def

lemma init_empty:
  "Annotator_init ref_ext (ref_model dets) r empty_draw dp default_tweak =
     Inr (ref_state r empty_draw dp dets [] [] [])"
  by (simp add: ref_eval)

lemma init_line:
  "Annotator_init ref_ext (ref_model dets) r line_draw dp default_tweak =
     Inr (ref_state r line_draw dp dets
            [(Point (PInt 0) (PInt 0), Point (PInt 100) (PInt 0), 0, 0)] [] [])"
  by (simp add: ref_eval)

lemma init_both:
  "Annotator_init ref_ext (ref_model dets) r both_draw dp default_tweak =
     Inr (ref_state r both_draw dp dets
            [(Point (PInt 0) (PInt 0), Point (PInt 100) (PInt 0), 0, 0)]
            [([[3, 3], [7, 3], [- 3, 9]], 0)]
            [ref_zone_annotator 0 (Point (PInt 2) (PInt 5))])"
  by (simp add: ref_eval)

lemma update_line_960:
  "update ref_ext (blank 960 1 c)
     (ref_state (640, 480) line_draw dp dets
        [(Point (PInt 0) (PInt 0), Point (PInt 100) (PInt 0), i, out)] [] []) =
   Inr (ref_state (640, 480) line_draw dp dets
          [(Point (PFloat 0) (PFloat 0), Point (PFloat 200) (PFloat 0), 0, 0)] [] [])"
  by (simp add: ref_eval)



subsection \<open>Degenerate geometry\<close>

text \<open>
  C4, as stated, fails: with a recorded height of zero \<^verbatim>\<open>update\<close> raises
  \<^verbatim>\<open>ZeroDivisionError\<close>, also when the DrawSet is empty.
\<close>

theorem update_zero_height_counterexample:
  "Annotator_init ref_ext (ref_model []) (640, 0) empty_draw all_off default_tweak =
     Inr (ref_state (640, 0) empty_draw all_off [] [] [] []) \<and>
   update ref_ext (blank 480 640 (Color 0 0 0)) (ref_state (640, 0) empty_draw all_off [] [] [] []) =
     Inl ZeroDivisionError"
proof
  show "Annotator_init ref_ext (ref_model []) (640, 0) empty_draw all_off default_tweak =
     Inr (ref_state (640, 0) empty_draw all_off [] [] [] [])"
    by (rule init_empty)
  show "update ref_ext (blank 480 640 (Color 0 0 0)) (ref_state (640, 0) empty_draw all_off [] [] [] []) =
     Inl ZeroDivisionError"
    by (simp add: update_def ref_state_def)
qed

text \<open>
  C4, amended: when the recorded height is zero, \<^verbatim>\<open>update\<close> raises
  \<^verbatim>\<open>ZeroDivisionError\<close>. When it is not zero and the DrawSet is empty, \<^verbatim>\<open>update\<close> returns
  and leaves no trigger; for an Annotator constructed on an empty DrawSet that is no
  change at all.
\<close>

theorem update_degenerate:
  "(snd (reso st) = 0 \<longrightarrow> update ext f st = Inl ZeroDivisionError) \<and>
   (snd (reso st) \<noteq> 0 \<and> lines (draw st) = [] \<and> zones (draw st) = [] \<longrightarrow>
      update ext f st = Inr (st\<lparr>ls := [], zs := []\<rparr>)) \<and>
   (Annotator_init ext m r dr dp tw = Inr st \<and> snd r \<noteq> 0 \<and> lines dr = [] \<and> zones dr = [] \<longrightarrow>
      update ext f st = Inr st)"
proof (intro conjI impI)
  assume "snd (reso st) = 0"
  then show "update ext f st = Inl ZeroDivisionError" by (simp add: update_def)
next
  assume "snd (reso st) \<noteq> 0 \<and> lines (draw st) = [] \<and> zones (draw st) = []"
  then show "update ext f st = Inr (st\<lparr>ls := [], zs := []\<rparr>)"
    by (simp add: update_def)
next
  assume a: "Annotator_init ext m r dr dp tw = Inr st \<and> snd r \<noteq> 0 \<and> lines dr = [] \<and> zones dr = []"
  then obtain tc where "from_hex ext (text_color tw) = Inr tc"
    by (auto simp: Annotator_init_def andthen_eq_Inr)
  with a show "update ext f st = Inr st"
    by (auto simp: Annotator_init_def update_def)
qed

theorem update_degenerate_witness:
  "update ref_ext (blank 1 1 (Color 0 0 0)) (ref_state (640, 0) empty_draw all_off [] [] [] []) =
     Inl ZeroDivisionError \<and>
   update ref_ext (blank 1 1 (Color 0 0 0)) (ref_state (640, 480) empty_draw all_off [] [] [] []) =
     Inr ((ref_state (640, 480) empty_draw all_off [] [] [] [])\<lparr>ls := [], zs := []\<rparr>) \<and>
   update ref_ext (blank 1 1 (Color 0 0 0)) (ref_state (640, 480) empty_draw all_off [] [] [] []) =
     Inr (ref_state (640, 480) empty_draw all_off [] [] [] [])"
proof -
  let ?f = "blank 1 1 (Color 0 0 0)"
  let ?s0 = "ref_state (640, 0) empty_draw all_off [] [] [] []"
  let ?s1 = "ref_state (640, 480) empty_draw all_off [] [] [] []"
  have zero: "snd (reso ?s0) = 0"
    by (simp add: ref_state_def)
  have empty: "snd (reso ?s1) \<noteq> 0 \<and> lines (draw ?s1) = [] \<and> zones (draw ?s1) = []"
    by (simp add: ref_state_def empty_draw_def)
  have "Annotator_init ref_ext (ref_model []) (640, 480) empty_draw all_off default_tweak = Inr ?s1"
    by (rule init_empty)
  moreover have "snd (640 :: int, 480 :: int) \<noteq> 0 \<and> lines empty_draw = [] \<and> zones empty_draw = []"
    by (simp add: empty_draw_def)
  ultimately have built:
    "Annotator_init ref_ext (ref_model []) (640, 480) empty_draw all_off default_tweak =
      Inr ?s1 \<and> snd (640 :: int, 480 :: int) \<noteq> 0 \<and> lines empty_draw = [] \<and> zones empty_draw = []"
    by blast
  from update_degenerate [of ?s0 ref_ext ?f] zero
  have a: "update ref_ext ?f ?s0 = Inl ZeroDivisionError" by blast
  from update_degenerate [of ?s1 ref_ext ?f] empty
  have b: "update ref_ext ?f ?s1 = Inr (?s1\<lparr>ls := [], zs := []\<rparr>)" by blast
  from update_degenerate [of ?s1 ref_ext ?f "ref_model []" "(640, 480)" empty_draw all_off default_tweak]
    built
  have c: "update ref_ext ?f ?s1 = Inr ?s1" by blast
  from a b c show ?thesis by blast
qed

subsection \<open>The crossing counters\<close>



subsection \<open>Rescaling\<close>



subsection \<open>Which geometry is current\<close>

text \<open>
  C3, as stated, fails: \<^verbatim>\<open>update\<close> does not replace the DrawSet. After a change from
  height 480 to height 960 the trigger runs from \<open>(0,0)\<close> to \<open>(200,0)\<close>, and the DrawSet
  still holds the line from \<open>(0,0)\<close> to \<open>(100,0)\<close> of the recorded resolution.
\<close>

theorem update_leaves_draw_counterexample:
  "update ref_ext (blank 960 1 (Color 0 0 0))
     (ref_state (640, 480) line_draw all_off []
        [(Point (PInt 0) (PInt 0), Point (PInt 100) (PInt 0), 0, 0)] [] []) =
   Inr (ref_state (640, 480) line_draw all_off []
          [(Point (PFloat 0) (PFloat 0), Point (PFloat 200) (PFloat 0), 0, 0)] [] []) \<and>
   lines (draw (ref_state (640, 480) line_draw all_off []
          [(Point (PFloat 0) (PFloat 0), Point (PFloat 200) (PFloat 0), 0, 0)] [] [])) =
     [PTuple [PTuple [PInt 0, PInt 0], PTuple [PInt 100, PInt 0]]] \<and>
   reso (ref_state (640, 480) line_draw all_off []
          [(Point (PFloat 0) (PFloat 0), Point (PFloat 200) (PFloat 0), 0, 0)] [] []) = (640, 480)"
proof (intro conjI)
  show "update ref_ext (blank 960 1 (Color 0 0 0))
     (ref_state (640, 480) line_draw all_off []
        [(Point (PInt 0) (PInt 0), Point (PInt 100) (PInt 0), 0, 0)] [] []) =
   Inr (ref_state (640, 480) line_draw all_off []
          [(Point (PFloat 0) (PFloat 0), Point (PFloat 200) (PFloat 0), 0, 0)] [] [])"
    by (rule update_line_960)
qed (simp_all add: ref_state_def line_draw_def)

text \<open>
  C3, amended: the DrawSet and the recorded resolution are those of the construction,
  and no call of \<^verbatim>\<open>update\<close> changes them. What is kept current is the triggers: after
  construction they hold the authored geometry, and after a call of \<^verbatim>\<open>update\<close> that
  returns they hold the authored geometry scaled by the factor of that call. They are
  computed from the DrawSet each time, never from the triggers of an earlier
  resolution: a second call gives what it gives without the first.
\<close>

theorem update_from_authored:
  "(Annotator_init ext m r dr dp tw = Inr st \<longrightarrow>
      draw st = dr \<and> reso st = r \<and>
      list_all2 (\<lambda>i l. line_zone_of ext i = Inr l) (lines dr) (ls st) \<and>
      list_all2 (\<lambda>p z. polygon_zone_of ext r p = Inr z) (zones dr) (zs st)) \<and>
   (update ext f st = Inr st' \<longrightarrow>
      draw st' = draw st \<and> reso st' = reso st \<and>
      list_all2 (\<lambda>i l. scaled_line_zone ext (scale_factor ext f st) i = Inr l)
        (lines (draw st)) (ls st') \<and>
      list_all2 (\<lambda>p z. \<exists>q. polygon_zone_of ext (reso st) p = Inr q \<and>
                   z = new_polygon_zone ext
                         (scale_polygon (scale_factor ext f st) (pz_polygon ext q))
                         (int (snd (shape ext f)), int (fst (shape ext f))))
        (zones (draw st)) (zs st') \<and>
      update ext g st' = update ext g st)"
proof (intro conjI impI)
  assume a: "Annotator_init ext m r dr dp tw = Inr st"
  then show "draw st = dr" "reso st = r"
    "list_all2 (\<lambda>i l. line_zone_of ext i = Inr l) (lines dr) (ls st)"
    "list_all2 (\<lambda>p z. polygon_zone_of ext r p = Inr z) (zones dr) (zs st)"
    by (auto simp: Annotator_init_def andthen_eq_Inr traverse_eq_Inr)
next
  let ?s = "scale_factor ext f st"
  let ?wh = "(int (snd (shape ext f)), int (fst (shape ext f)))"
  let ?new = "\<lambda>q. new_polygon_zone ext (scale_polygon ?s (pz_polygon ext q)) ?wh"
  assume up: "update ext f st = Inr st'"
  then obtain l oz zas where
    h0: "snd (reso st) \<noteq> 0" and
    l: "traverse (scaled_line_zone ext ?s) (lines (draw st)) = Inr l" and
    oz: "traverse (polygon_zone_of ext (reso st)) (zones (draw st)) = Inr oz" and
    zas: "retarget ext 0 (map ?new oz) (a_zones st) = Inr zas" and
    st': "st' = st\<lparr>ls := l, zs := map ?new oz, a_zones := zas\<rparr>"
    unfolding update_Inr by blast
  show "draw st' = draw st" "reso st' = reso st" by (simp_all add: st')
  show "list_all2 (\<lambda>i l. scaled_line_zone ext ?s i = Inr l) (lines (draw st)) (ls st')"
    using l by (simp add: st' traverse_eq_Inr)
  have "list_all2 (\<lambda>p q. polygon_zone_of ext (reso st) p = Inr q) (zones (draw st)) oz"
    using oz by (simp add: traverse_eq_Inr)
  then show "list_all2 (\<lambda>p z. \<exists>q. polygon_zone_of ext (reso st) p = Inr q \<and> z = ?new q)
        (zones (draw st)) (zs st')"
    unfolding st' by (auto simp: list_all2_map2 elim!: list_all2_mono)
  show "update ext g st' = update ext g st"
  proof -
    let ?t = "scale_factor ext g st"
    let ?new' = "\<lambda>q. new_polygon_zone ext (scale_polygon ?t (pz_polygon ext q))
                  (int (snd (shape ext g)), int (fst (shape ext g)))"
    have sf: "scale_factor ext g st' = ?t" by (simp add: scale_factor_def st')
    have rt: "retarget ext 0 (map ?new' oz) zas = retarget ext 0 (map ?new' oz) (a_zones st)"
      by (rule retarget_twice [OF zas]) simp
    show ?thesis
      unfolding update_def sf
      by (simp add: st' oz Let_def rt cong: sum.case_cong)
  qed
qed

theorem update_from_authored_witness:
  "Annotator_init ref_ext (ref_model []) (640, 480) line_draw all_off default_tweak =
     Inr (ref_state (640, 480) line_draw all_off []
            [(Point (PInt 0) (PInt 0), Point (PInt 100) (PInt 0), 0, 0)] [] []) \<and>
   update ref_ext (blank 960 1 (Color 0 0 0))
     (ref_state (640, 480) line_draw all_off []
        [(Point (PInt 0) (PInt 0), Point (PInt 100) (PInt 0), 0, 0)] [] []) =
     Inr (ref_state (640, 480) line_draw all_off []
            [(Point (PFloat 0) (PFloat 0), Point (PFloat 200) (PFloat 0), 0, 0)] [] []) \<and>
   draw (ref_state (640, 480) line_draw all_off []
           [(Point (PFloat 0) (PFloat 0), Point (PFloat 200) (PFloat 0), 0, 0)] [] []) = line_draw \<and>
   update ref_ext (blank 480 1 (Color 0 0 0))
     (ref_state (640, 480) line_draw all_off []
        [(Point (PFloat 0) (PFloat 0), Point (PFloat 200) (PFloat 0), 0, 0)] [] []) =
   update ref_ext (blank 480 1 (Color 0 0 0))
     (ref_state (640, 480) line_draw all_off []
        [(Point (PInt 0) (PInt 0), Point (PInt 100) (PInt 0), 0, 0)] [] [])"
proof -
  let ?s = "ref_state (640, 480) line_draw all_off []
              [(Point (PInt 0) (PInt 0), Point (PInt 100) (PInt 0), 0, 0)] [] []"
  let ?s' = "ref_state (640, 480) line_draw all_off []
               [(Point (PFloat 0) (PFloat 0), Point (PFloat 200) (PFloat 0), 0, 0)] [] []"
  have built: "Annotator_init ref_ext (ref_model []) (640, 480) line_draw all_off default_tweak = Inr ?s"
    by (rule init_line)
  have up: "update ref_ext (blank 960 1 (Color 0 0 0)) ?s = Inr ?s'"
    by (rule update_line_960)
  note inst = update_from_authored [of ref_ext "ref_model []" "(640, 480)" line_draw all_off
      default_tweak ?s "blank 960 1 (Color 0 0 0)" ?s' "blank 480 1 (Color 0 0 0)"]
  from inst built have a: "draw ?s = line_draw" by blast
  from inst up have b: "draw ?s' = draw ?s" by blast
  from inst up have c: "update ref_ext (blank 480 1 (Color 0 0 0)) ?s' =
      update ref_ext (blank 480 1 (Color 0 0 0)) ?s" by blast
  from built up a b c show ?thesis by simp
qed

section \<open>Annotator.__call__\<close>

subsection \<open>The trigger loops\<close>




lemma zone_pass_Nil [simp]: "zone_pass ext det zas [] f = ([], f)"
  by (simp add: zone_pass_def)

subsection \<open>All toggles off\<close>

lemmas call_eval =
  Annotator_call_def color_step_def color_step_original_def avg_rgb_def closest_def argmin_def
  rgb2ycc_def rgb2ycc_row_def sqdist_def list_index_def box_int_def zone_pass_def zone_step_def
  crop_image_def mean_color_def put_pixel_def first_vertex_def area_step_def label_of_def

text \<open>
  C1, as stated, fails: the line and zone painters run whatever the toggles are. With
  every toggle off and one line in the DrawSet, the frame that comes back has the line
  painted on it (here the pixel at the start of the line).
\<close>

theorem call_all_off_counterexample:
  "Annotator_call ref_ext 1
     (ref_state (640, 480) line_draw all_off []
        [(Point (PInt 0) (PInt 0), Point (PInt 100) (PInt 0), 0, 0)] [] [])
     [[Color 255 255 255]] =
   Inr (ref_state (640, 480) line_draw all_off []
          [(Point (PInt 0) (PInt 0), Point (PInt 100) (PInt 0), 0, 0)] [] [],
        [[Color 0 0 0]], [[Color 255 255 255]]) \<and>
   [[Color 0 0 0]] \<noteq> [[Color 255 255 255]]"
  by (simp add: ref_eval call_eval)

text \<open>
  C1, amended: with every toggle off, a render pass in which the model call returns
  gives back the input frame with what the line painters and the zone painters have
  painted on it, and nothing else; when the pipeline has no line and no zone trigger
  (the DrawSet is empty), the frame that comes back is the input frame, and the
  pipeline is unchanged.
\<close>

theorem call_all_off:
  assumes off: "\<not> fps (display st) \<and> \<not> predict_color (display st) \<and> \<not> box (display st) \<and>
                \<not> mask (display st) \<and> \<not> area (display st)"
    and det: "run_det ext (model st) f = Inr (det, res)"
  shows "Annotator_call ext elapsed st f =
           Inr (st\<lparr>ls := fst (line_pass ext (a_line st) det f (ls st)),
                   zs := fst (zone_pass ext det (a_zones st) (zs st)
                               (snd (line_pass ext (a_line st) det f (ls st))))\<rparr>,
                snd (zone_pass ext det (a_zones st) (zs st)
                       (snd (line_pass ext (a_line st) det f (ls st)))),
                res) \<and>
         (ls st = [] \<and> zs st = [] \<longrightarrow> Annotator_call ext elapsed st f = Inr (st, f, res))"
proof -
  have a: "Annotator_call ext elapsed st f =
           Inr (st\<lparr>ls := fst (line_pass ext (a_line st) det f (ls st)),
                   zs := fst (zone_pass ext det (a_zones st) (zs st)
                               (snd (line_pass ext (a_line st) det f (ls st))))\<rparr>,
                snd (zone_pass ext det (a_zones st) (zs st)
                       (snd (line_pass ext (a_line st) det f (ls st)))),
                res)"
    using off det by (simp add: Annotator_call_def Let_def case_prod_beta)
  have "Annotator_call ext elapsed st f = Inr (st, f, res)" if "ls st = [] \<and> zs st = []"
    using a that by simp
  with a show ?thesis by blast
qed

theorem call_all_off_witness:
  "Annotator_call ref_ext 1 (ref_state (640, 480) empty_draw all_off [det_at (0, 0, 1, 1)] [] [] [])
     [[Color 255 255 255]] =
   Inr (ref_state (640, 480) empty_draw all_off [det_at (0, 0, 1, 1)] [] [] [],
        [[Color 255 255 255]], [[Color 255 255 255]])"
proof -
  let ?st = "ref_state (640, 480) empty_draw all_off [det_at (0, 0, 1, 1)] [] [] []"
  let ?f = "[[Color 255 255 255]]"
  have off: "\<not> fps (display ?st) \<and> \<not> predict_color (display ?st) \<and> \<not> box (display ?st) \<and>
             \<not> mask (display ?st) \<and> \<not> area (display ?st)"
    by (simp add: ref_state_def all_off_def)
  have det: "run_det ref_ext (model ?st) ?f = Inr ([det_at (0, 0, 1, 1)], ?f)"
    by (simp add: ref_ext_def ref_state_def ref_model_def)
  have none: "ls ?st = [] \<and> zs ?st = []"
    by (simp add: ref_state_def)
  from call_all_off [OF off det, of 1] none show ?thesis by blast
qed

subsection \<open>The colour pass\<close>












section \<open>ConfigCodec\<close>

subsection \<open>What a document holds of a value\<close>

lemma of_json_to_json: "of_json (to_json v) = detuple v"
proof (induction v)
  case (PDict kvs)
  have "map_prod id of_json (map_prod id to_json kv) = map_prod id detuple kv" if "kv \<in> set kvs" for kv
    using PDict that by (cases kv) auto
  then show ?case by simp
qed simp_all

lemma traverse_int_items: "traverse int_item (map PInt cs) = Inr cs"
  by (induction cs) simp_all

lemma ModelInfo_back: "ModelInfo_from_dict (map (map_prod id detuple)
    (case ModelInfo_asdict i of PDict d \<Rightarrow> d | _ \<Rightarrow> [])) = Inr i"
  by (cases "tracker i")
    (simp_all add: ModelInfo_asdict_def ModelInfo_from_dict_def field_str_def field_int_list_def
      field_float_def field_opt_str_def comp_def traverse_int_items)

lemma Display_back: "Display_from_dict (map (map_prod id detuple)
    (case Display_asdict d of PDict kvs \<Rightarrow> kvs | _ \<Rightarrow> [])) = Inr d"
  by (simp add: Display_asdict_def Display_from_dict_def field_bool_def field_float_def)

lemma Tweak_back: "Tweak_from_dict (map (map_prod id detuple)
    (case Tweak_asdict t of PDict kvs \<Rightarrow> kvs | _ \<Rightarrow> [])) = Inr t"
  by (simp add: Tweak_asdict_def Tweak_from_dict_def field_int_def field_float_def field_str_def)

lemma Draw_back: "Draw_from_dict (map (map_prod id detuple)
    (case Draw_asdict d of PDict kvs \<Rightarrow> kvs | _ \<Rightarrow> [])) =
    Inr \<lparr>lines = map detuple (lines d), zones = map detuple (zones d)\<rparr>"
  by (simp add: Draw_asdict_def Draw_from_dict_def field_list_def)

subsection \<open>The constructor on lists in place of tuples\<close>

lemma py_index_detuple: "py_index (detuple v) n = map_sum id detuple (py_index v n)"
  by (cases v) auto

lemma coord_detuple: "coord (detuple i) a b = map_sum id detuple (coord i a b)"
  by (cases "py_index i a") (simp_all add: coord_def py_index_detuple)

lemma line_zone_of_detuple:
  "line_zone_of ext i = Inr l \<Longrightarrow> \<exists>l'. line_zone_of ext (detuple i) = Inr l'"
  by (auto simp: line_zone_of_def andthen_eq_Inr coord_detuple)

lemma number_of_detuple: "number_of (detuple x) = number_of x"
  by (cases x) simp_all

lemma traverse_map: "traverse f (map g xs) = traverse (\<lambda>x. f (g x)) xs"
  by (induction xs) simp_all

lemma row_of_detuple: "row_of (detuple v) = row_of v"
  by (cases v) (simp_all add: row_of_def traverse_map number_of_detuple)

lemma np_array_detuple: "np_array (detuple p) = np_array p"
  by (cases p) (simp_all add: np_array_def traverse_map row_of_detuple)

lemma traverse_transfer:
  assumes "traverse f xs = Inr ys"
    and "\<And>x y. f x = Inr y \<Longrightarrow> \<exists>y'. g x = Inr y'"
  shows "\<exists>ys'. traverse g xs = Inr ys'"
  using assms(1)
proof (induction xs arbitrary: ys)
  case Nil
  show ?case by simp
next
  case (Cons x xs)
  from Cons.prems obtain y ys0 where y: "f x = Inr y" and ys0: "traverse f xs = Inr ys0"
    by (auto simp: andthen_eq_Inr)
  from assms(2) [OF y] obtain y' where y': "g x = Inr y'" by blast
  from Cons.IH [OF ys0] obtain ys' where "traverse g xs = Inr ys'" by blast
  with y' show ?case by simp
qed

lemma polygon_zone_of_detuple:
  "polygon_zone_of ext r0 p = Inr z \<Longrightarrow> \<exists>z'. polygon_zone_of ext r (detuple p) = Inr z'"
  by (auto simp: polygon_zone_of_def andthen_eq_Inr np_array_detuple)

lemma init_detuple:
  assumes "Annotator_init ext m r0 dr dp tw = Inr st0"
  shows "\<exists>st'. Annotator_init ext m' r \<lparr>lines = map detuple (lines dr), zones = map detuple (zones dr)\<rparr> dp tw =
           Inr st' \<and>
         model st' = m' \<and> reso st' = r \<and> display st' = dp \<and> tweak st' = tw \<and>
         draw st' = \<lparr>lines = map detuple (lines dr), zones = map detuple (zones dr)\<rparr>"
proof -
  from assms obtain l z tc where
    l: "traverse (line_zone_of ext) (lines dr) = Inr l" and
    z: "traverse (polygon_zone_of ext r0) (zones dr) = Inr z" and
    tc: "from_hex ext (text_color tw) = Inr tc"
    unfolding Annotator_init_def andthen_eq_Inr by blast
  have "\<exists>l'. traverse (\<lambda>i. line_zone_of ext (detuple i)) (lines dr) = Inr l'"
    by (rule traverse_transfer [OF l]) (rule line_zone_of_detuple)
  then obtain l' where "traverse (\<lambda>i. line_zone_of ext (detuple i)) (lines dr) = Inr l'"
    by blast
  then have l': "traverse (line_zone_of ext) (map detuple (lines dr)) = Inr l'"
    by (simp only: traverse_map)
  have "\<exists>z'. traverse (\<lambda>p. polygon_zone_of ext r (detuple p)) (zones dr) = Inr z'"
    by (rule traverse_transfer [OF z]) (rule polygon_zone_of_detuple)
  then obtain z' where "traverse (\<lambda>p. polygon_zone_of ext r (detuple p)) (zones dr) = Inr z'"
    by blast
  then have z': "traverse (polygon_zone_of ext r) (map detuple (zones dr)) = Inr z'"
    by (simp only: traverse_map)
  have "Annotator_init ext m' r \<lparr>lines = map detuple (lines dr), zones = map detuple (zones dr)\<rparr> dp tw =
      Inr \<lparr>model = m', reso = r,
            draw = \<lparr>lines = map detuple (lines dr), zones = map detuple (zones dr)\<rparr>,
            display = dp, tweak = tw, ls = l', zs = z', a_text_color = tc,
            a_line = \<lparr>l_thickness = thickness tw, l_text_color = tc,
                      l_text_scale = text_scale tw, l_text_offset = text_offset tw,
                      l_text_padding = text_padding tw\<rparr>,
            a_box = \<lparr>b_thickness = thickness tw, b_text_color = tc,
                     b_text_scale = text_scale tw, b_text_padding = text_padding tw\<rparr>,
            a_zones = map (\<lambda>(i, z). zone_annotator_of ext tw tc i z) (enumerate 0 z')\<rparr>"
    unfolding Annotator_init_def by (simp add: l' z' tc)
  then show ?thesis by simp
qed

lemma Model_init_info: "Model_init ext i = Inr m \<Longrightarrow> info m = i"
  by (auto simp: Model_init_def Let_def andthen_eq_Inr split: if_splits)

lemma load_dump:
  "load ext p r (dump p st fs) =
     andthen (Model_init ext (info (model st))) (\<lambda>m.
       Annotator_init ext m r
         \<lparr>lines = map detuple (lines (draw st)), zones = map detuple (zones (draw st))\<rparr>
         (display st) (tweak st))"
proof -
  have doc: "of_json (to_json (Annotator_dict st)) =
      PDict [(''model'', detuple (ModelInfo_asdict (info (model st)))),
             (''draw'', detuple (Draw_asdict (draw st))),
             (''display'', detuple (Display_asdict (display st))),
             (''tweak'', detuple (Tweak_asdict (tweak st)))]"
    by (simp add: of_json_to_json Annotator_dict_def)
  have m: "section_of (of_json (to_json (Annotator_dict st))) ''model'' =
      Inr (map (map_prod id detuple)
        (case ModelInfo_asdict (info (model st)) of PDict d \<Rightarrow> d | _ \<Rightarrow> []))"
    unfolding doc by (simp add: ModelInfo_asdict_def)
  have d: "section_of (of_json (to_json (Annotator_dict st))) ''display'' =
      Inr (map (map_prod id detuple)
        (case Display_asdict (display st) of PDict d \<Rightarrow> d | _ \<Rightarrow> []))"
    unfolding doc by (simp add: Display_asdict_def)
  have t: "section_of (of_json (to_json (Annotator_dict st))) ''tweak'' =
      Inr (map (map_prod id detuple)
        (case Tweak_asdict (tweak st) of PDict d \<Rightarrow> d | _ \<Rightarrow> []))"
    unfolding doc by (simp add: Tweak_asdict_def)
  have w: "section_of (of_json (to_json (Annotator_dict st))) ''draw'' =
      Inr (map (map_prod id detuple)
        (case Draw_asdict (draw st) of PDict d \<Rightarrow> d | _ \<Rightarrow> []))"
    unfolding doc by (simp add: Draw_asdict_def)
  show ?thesis
    unfolding load_def dump_def
    by (simp only: fun_upd_same option.case Let_def m d t w andthen_Inr
          ModelInfo_back Display_back Tweak_back Draw_back)
qed

text \<open>
  C8, as stated, fails: the lines that \<^verbatim>\<open>Draw.from_canvas\<close> builds are tuples of
  tuples, a document holds arrays, and \<^verbatim>\<open>load\<close> gives lists of lists: the DrawSet that
  comes back is not equal to the one that was written.
\<close>

theorem dump_load_counterexample:
  "from_canvas [canvas_line] = Inr line_draw \<and>
   draw (ref_state (640, 480) line_draw all_off []
           [(Point (PInt 0) (PInt 0), Point (PInt 100) (PInt 0), 0, 0)] [] []) = line_draw \<and>
   lines line_draw = [PTuple [PTuple [PInt 0, PInt 0], PTuple [PInt 100, PInt 0]]] \<and>
   map_sum id (\<lambda>st. lines (draw st))
     (load ref_ext ''config.json'' (640, 480)
        (dump ''config.json''
           (ref_state (640, 480) line_draw all_off []
              [(Point (PInt 0) (PInt 0), Point (PInt 100) (PInt 0), 0, 0)] [] [])
           Map.empty)) =
     Inr [PList [PList [PInt 0, PInt 0], PList [PInt 100, PInt 0]]] \<and>
   [PList [PList [PInt 0, PInt 0], PList [PInt 100, PInt 0]]] \<noteq>
     [PTuple [PTuple [PInt 0, PInt 0], PTuple [PInt 100, PInt 0]]]"
proof (intro conjI)
  show "from_canvas [canvas_line] = Inr line_draw"
    by (simp add: canvas_eval line_draw_def)
  show "map_sum id (\<lambda>st. lines (draw st))
     (load ref_ext ''config.json'' (640, 480)
        (dump ''config.json''
           (ref_state (640, 480) line_draw all_off []
              [(Point (PInt 0) (PInt 0), Point (PInt 100) (PInt 0), 0, 0)] [] [])
           Map.empty)) =
     Inr [PList [PList [PInt 0, PInt 0], PList [PInt 100, PInt 0]]]"
    unfolding load_dump
    by (simp add: ref_eval Model_init_def)
qed (simp_all add: ref_state_def line_draw_def)

text \<open>
  C8, amended: for every Annotator whose configuration the constructor accepts (as it
  did when the Annotator was built) and whose model can be resolved again, \<^verbatim>\<open>dump\<close>
  followed by \<^verbatim>\<open>load\<close> returns an Annotator with every field of \<^verbatim>\<open>ModelInfo\<close>,
  \<^verbatim>\<open>Display\<close> and \<^verbatim>\<open>Tweak\<close> equal to what was written, the model handle resolved anew
  from the \<^verbatim>\<open>ModelInfo\<close>, the resolution the caller gave, and the \<^verbatim>\<open>lines\<close> and \<^verbatim>\<open>zones\<close>
  of the \<^verbatim>\<open>Draw\<close> with the same entries in the same order, every tuple in them read back
  as a list; the \<^verbatim>\<open>Draw\<close> is equal to the one written when it holds no tuple.
\<close>

theorem dump_load_roundtrip:
  assumes built: "Annotator_init ext (model st) (reso st) (draw st) (display st) (tweak st) = Inr st0"
    and again: "Model_init ext (info (model st)) = Inr m'"
  shows "\<exists>st'. load ext p r (dump p st fs) = Inr st' \<and>
           model st' = m' \<and> info (model st') = info (model st) \<and> reso st' = r \<and>
           display st' = display st \<and> tweak st' = tweak st \<and>
           draw st' = \<lparr>lines = map detuple (lines (draw st)), zones = map detuple (zones (draw st))\<rparr> \<and>
           (map detuple (lines (draw st)) = lines (draw st) \<and>
            map detuple (zones (draw st)) = zones (draw st) \<longrightarrow> draw st' = draw st)"
proof -
  from init_detuple [OF built, of m' r] obtain st' where
    st': "Annotator_init ext m' r
            \<lparr>lines = map detuple (lines (draw st)), zones = map detuple (zones (draw st))\<rparr>
            (display st) (tweak st) = Inr st'" and
    fields: "model st' = m'" "reso st' = r" "display st' = display st" "tweak st' = tweak st"
      "draw st' = \<lparr>lines = map detuple (lines (draw st)), zones = map detuple (zones (draw st))\<rparr>"
    by blast
  have "load ext p r (dump p st fs) = Inr st'"
    by (simp add: load_dump again st')
  with fields Model_init_info [OF again] show ?thesis by auto
qed

theorem dump_load_roundtrip_witness:
  "load ref_ext ''config.json'' (640, 480)
     (dump ''config.json''
        (ref_state (1280, 960) zone_draw all_off [det_at (0, 0, 1, 1)] []
           [([[3, 3], [7, 3], [- 3, 9]], 4)] [ref_zone_annotator 0 (Point (PInt 2) (PInt 5))])
        Map.empty) =
   Inr (ref_state (640, 480) zone_draw all_off [] []
          [([[3, 3], [7, 3], [- 3, 9]], 0)] [ref_zone_annotator 0 (Point (PInt 2) (PInt 5))])"
proof -
  let ?st = "ref_state (1280, 960) zone_draw all_off [det_at (0, 0, 1, 1)] []
           [([[3, 3], [7, 3], [- 3, 9]], 4)] [ref_zone_annotator 0 (Point (PInt 2) (PInt 5))]"
  let ?st' = "ref_state (640, 480) zone_draw all_off [] []
          [([[3, 3], [7, 3], [- 3, 9]], 0)] [ref_zone_annotator 0 (Point (PInt 2) (PInt 5))]"
  have built: "Annotator_init ref_ext (model ?st) (reso ?st) (draw ?st) (display ?st) (tweak ?st) =
      Inr (ref_state (1280, 960) zone_draw all_off [det_at (0, 0, 1, 1)] []
           [([[3, 3], [7, 3], [- 3, 9]], 0)] [ref_zone_annotator 0 (Point (PInt 2) (PInt 5))])"
    by (simp add: ref_eval)
  have again: "Model_init ref_ext (info (model ?st)) = Inr (ref_model [])"
    by (simp add: ref_eval Model_init_def)
  from dump_load_roundtrip [OF built again, of "''config.json''" "(640, 480)" Map.empty]
  obtain st' where
    ld: "load ref_ext ''config.json'' (640, 480) (dump ''config.json'' ?st Map.empty) = Inr st'"
    by blast
  have "load ref_ext ''config.json'' (640, 480) (dump ''config.json'' ?st Map.empty) = Inr ?st'"
    unfolding load_dump by (simp add: ref_eval Model_init_def)
  with ld show ?thesis by simp
qed

end
